theory Spec2Isabelle
  imports Complex_Main
begin

section \<open>Texts and patterns\<close>

text \<open>
  Texts of the page are modelled as Isabelle strings. On ASCII text, which is what every
  pattern of the program is written in (apart from a few currency signs and language
  names, given below by their UTF-8 bytes), length, case folding and white space are
  those of the JavaScript string operations the program calls.
\<close>

definition toLowerChar :: "char \<Rightarrow> char" where
  "toLowerChar c =
     (case map_of (zip ''ABCDEFGHIJKLMNOPQRSTUVWXYZ'' ''abcdefghijklmnopqrstuvwxyz'') c of
        None \<Rightarrow> c
      | Some l \<Rightarrow> l)"

definition toLowerCase :: "string \<Rightarrow> string" where
  "toLowerCase s = map toLowerChar s"

definition isSpace :: "char \<Rightarrow> bool" where
  "isSpace c = (c \<in> set [CHR 0x09, CHR 0x0A, CHR 0x0B, CHR 0x0C, CHR 0x0D, CHR 0x20])"

definition isDigit :: "char \<Rightarrow> bool" where
  "isDigit c = (c \<in> set ''0123456789'')"

definition trim :: "string \<Rightarrow> string" where
  "trim s = rev (dropWhile isSpace (rev (dropWhile isSpace s)))"

text \<open>\<^verbatim>\<open>s.replace(/\s+/g, " ")\<close>: every run of white space becomes one blank. The flag
  says whether the previous character belonged to a run already replaced.\<close>

fun collapseFrom :: "bool \<Rightarrow> string \<Rightarrow> string" where
  "collapseFrom inRun [] = []"
| "collapseFrom inRun (c # cs) =
     (if isSpace c then (if inRun then collapseFrom True cs else CHR 0x20 # collapseFrom True cs)
      else c # collapseFrom False cs)"

definition collapseSpaces :: "string \<Rightarrow> string" where
  "collapseSpaces s = collapseFrom False s"

fun stripPrefix :: "string \<Rightarrow> string \<Rightarrow> string option" where
  "stripPrefix [] s = Some s"
| "stripPrefix (p # ps) [] = None"
| "stripPrefix (p # ps) (c # cs) = (if p = c then stripPrefix ps cs else None)"

text \<open>\<^verbatim>\<open>s.includes(k)\<close>\<close>

fun includesStr :: "string \<Rightarrow> string \<Rightarrow> bool" where
  "includesStr [] k = (k = [])"
| "includesStr (c # cs) k = (stripPrefix k (c # cs) \<noteq> None \<or> includesStr cs k)"

text \<open>\<^verbatim>\<open>s.slice(0, n)\<close> for a count \<open>n\<close>.\<close>

definition slice0 :: "nat \<Rightarrow> string \<Rightarrow> string" where
  "slice0 n s = take n s"

text \<open>Decimal rendering of a count inside a template string.\<close>

fun string_of_nat :: "nat \<Rightarrow> string" where
  "string_of_nat n =
     (if n < 10 then [''0123456789'' ! n]
      else string_of_nat (n div 10) @ [''0123456789'' ! (n mod 10)])"

declare string_of_nat.simps [simp del]

subsection \<open>The regular expressions the program uses\<close>

datatype cclass = Space | Digit | AnyChar

fun inClass :: "cclass \<Rightarrow> char \<Rightarrow> bool" where
  "inClass Space c = isSpace c"
| "inClass Digit c = isDigit c"
| "inClass AnyChar c = (c \<notin> set [CHR 0x0A, CHR 0x0D])"

datatype regex =
    Lit string
  | Rep0 cclass
  | Rep1 cclass
  | Opt regex
  | Seq regex regex
  | Alt "regex list"

text \<open>
  \<open>run r s\<close> lists what is left of \<open>s\<close> after each way \<open>r\<close> can match a prefix
  of it, in the order a backtracking matcher tries them (repetition is greedy, alternatives
  go left to right).
\<close>

fun repRests :: "cclass \<Rightarrow> string \<Rightarrow> string list" where
  "repRests k [] = [[]]"
| "repRests k (c # cs) = (if inClass k c then repRests k cs else []) @ [c # cs]"

fun run :: "regex \<Rightarrow> string \<Rightarrow> string list" where
  "run (Lit p) s = (case stripPrefix p s of None \<Rightarrow> [] | Some r \<Rightarrow> [r])"
| "run (Rep0 k) s = repRests k s"
| "run (Rep1 k) s = (case s of [] \<Rightarrow> [] | c # cs \<Rightarrow> if inClass k c then repRests k cs else [])"
| "run (Opt r) s = run r s @ [s]"
| "run (Seq r1 r2) s = concat (map (run r2) (run r1 s))"
| "run (Alt rs) s = concat (map (\<lambda>r. run r s) rs)"

text \<open>\<^verbatim>\<open>/r/.test(s)\<close>: a match starting anywhere.\<close>

fun test :: "regex \<Rightarrow> string \<Rightarrow> bool" where
  "test r [] = (run r [] \<noteq> [])"
| "test r (c # cs) = (run r (c # cs) \<noteq> [] \<or> test r cs)"

text \<open>\<^verbatim>\<open>/^r/.test(s)\<close> and \<^verbatim>\<open>/^r$/.test(s)\<close>.\<close>

definition testStart :: "regex \<Rightarrow> string \<Rightarrow> bool" where
  "testStart r s = (run r s \<noteq> [])"

definition testWhole :: "regex \<Rightarrow> string \<Rightarrow> bool" where
  "testWhole r s = ([] \<in> set (run r s))"

text \<open>
  \<^verbatim>\<open>(s.match(/r/g) ?? []).length\<close>: the matches are found from left to right and do not
  overlap. \<open>skip\<close> counts the characters still covered by the last match.
\<close>

fun countMatchesFrom :: "regex \<Rightarrow> nat \<Rightarrow> string \<Rightarrow> nat" where
  "countMatchesFrom r skip [] = (if skip = 0 \<and> run r [] \<noteq> [] then 1 else 0)"
| "countMatchesFrom r skip (c # cs) =
     (if 0 < skip then countMatchesFrom r (skip - 1) cs
      else (case run r (c # cs) of
              [] \<Rightarrow> countMatchesFrom r 0 cs
            | rest # _ \<Rightarrow>
                (let used = length (c # cs) - length rest
                 in if used = 0 then 1 + countMatchesFrom r 0 cs
                    else 1 + countMatchesFrom r (used - 1) cs)))"

definition countMatches :: "regex \<Rightarrow> string \<Rightarrow> nat" where
  "countMatches r s = countMatchesFrom r 0 s"

text \<open>The \<^verbatim>\<open>i\<close> flag; every pattern of the program is written in lower case.\<close>

definition testI :: "regex \<Rightarrow> string \<Rightarrow> bool" where
  "testI r s = test r (toLowerCase s)"

definition testStartI :: "regex \<Rightarrow> string \<Rightarrow> bool" where
  "testStartI r s = testStart r (toLowerCase s)"

definition testWholeI :: "regex \<Rightarrow> string \<Rightarrow> bool" where
  "testWholeI r s = testWhole r (toLowerCase s)"

definition countMatchesI :: "regex \<Rightarrow> string \<Rightarrow> nat" where
  "countMatchesI r s = countMatches r (toLowerCase s)"

definition lits :: "string list \<Rightarrow> regex" where
  "lits ks = Alt (map Lit ks)"

section \<open>The screen classifier (classifyScreen)\<close>

datatype ScreenType = Question | Info | Input | Email | Paywall | Other

record ScreenClassification =
  type :: ScreenType
  reason :: string

text \<open>An element as the card detector reads it: computed cursor style, tag name, text
  content and the size of its bounding box.\<close>

record element =
  isHTMLElement :: bool
  cursor :: string
  tagName :: string
  textContent :: string
  rectWidth :: real
  rectHeight :: real

text \<open>
  A document snapshot: what each query of the classifier answers on the page.
  \<^item> \<open>content\<close>: \<^verbatim>\<open>page.content()\<close>, the markup;
  \<^item> \<open>controlTexts\<close>: the text of every element matched by
    \<^verbatim>\<open>button, [role='button'], a, input[type='submit']\<close>;
  \<^item> \<open>emailTypeInputs\<close>, \<open>emailAutocompleteInputs\<close>, \<open>emailNameInputs\<close>,
    \<open>emailPlaceholderInputs\<close>: the counts of the four email locators;
  \<^item> \<open>radios\<close>, \<open>checkboxes\<close>: \<^verbatim>\<open>input[type="radio"], [role="radio"]\<close> and
    \<^verbatim>\<open>input[type="checkbox"], [role="checkbox"]\<close>;
  \<^item> \<open>textInputs\<close>: \<^verbatim>\<open>input[type="text"]:visible, input[type="number"]:visible\<close>;
  \<^item> \<open>hintInputs\<close>: inputs whose placeholder names height, weight, age or name;
  \<^item> \<open>bodyInnerText\<close>: \<^verbatim>\<open>page.innerText("body")\<close>, \<open>None\<close> when the call fails;
  \<^item> \<open>visibleButtons\<close>: the inner text of every \<^verbatim>\<open>button:visible, [role='button']:visible\<close>,
    \<open>None\<close> when reading it fails;
  \<^item> \<open>allElements\<close>: \<^verbatim>\<open>document.querySelectorAll("*")\<close>;
  \<^item> \<open>visibleFormControls\<close>: the count of \<^verbatim>\<open>input:visible, textarea:visible, select:visible\<close>,
    \<open>None\<close> when the call fails.
\<close>

record document =
  content :: string
  controlTexts :: "string list"
  emailTypeInputs :: nat
  emailAutocompleteInputs :: nat
  emailNameInputs :: nat
  emailPlaceholderInputs :: nat
  radios :: nat
  checkboxes :: nat
  textInputs :: nat
  hintInputs :: nat
  bodyInnerText :: "string option"
  visibleButtons :: "string option list"
  allElements :: "element list"
  visibleFormControls :: "nat option"

subsection \<open>Patterns of the classifier\<close>

definition euroSign :: string where
  "euroSign = [CHR 0xE2, CHR 0x82, CHR 0xAC]"

definition poundSign :: string where
  "poundSign = [CHR 0xC2, CHR 0xA3]"

text \<open>The price pattern: a dollar, euro or pound sign, or \<^verbatim>\<open>usd\<close> or \<^verbatim>\<open>eur\<close>, then optional
  white space and at least one digit; flags \<^verbatim>\<open>gi\<close>.\<close>

definition pricePattern :: regex where
  "pricePattern =
     Seq (Alt [Lit ''$'', Lit euroSign, Lit poundSign, Lit ''usd'', Lit ''eur''])
         (Seq (Rep0 Space) (Rep1 Digit))"

definition paywallKeywords :: regex where
  "paywallKeywords =
     lits [''subscribe'', ''buy now'', ''purchase'', ''continue to payment'', ''start my plan'',
           ''get my plan'', ''unlock'', ''try now'', ''start plan'', ''see your plan'',
           ''show my plan'', ''get plan'', ''get access'']"

definition paywallTextPattern :: regex where
  "paywallTextPattern =
     Alt [Lit ''subscription'', Seq (Lit ''per'') (Seq (Rep0 Space) (Lit ''month'')),
          Lit ''your plan'', Lit ''unlock your plan'', Lit ''choose your plan'',
          Lit ''personalized plan'', Lit ''show my plan'', Lit ''see your plan'',
          Lit ''get your plan'', Lit ''premium'', Lit ''trial'']"

definition aggressivePattern :: regex where
  "aggressivePattern = lits [''start'', ''subscribe'', ''buy'', ''continue'', ''unlock'', ''get access'']"

definition softPaywallPattern :: regex where
  "softPaywallPattern =
     lits [''subscription'', ''per month'', ''your plan'', ''choose your plan'',
           ''unlock your plan'', ''premium'', ''trial'']"

definition offerPattern :: regex where
  "offerPattern =
     lits [''today'', ''limited'', ''offer'', ''save'', ''off'', ''discount'', ''trial'', ''month'',
           ''week'', ''year'', ''billed'', ''payment'', ''checkout'', ''access'']"

definition inputKeywords :: regex where
  "inputKeywords =
     Alt [Lit ''your height'', Lit ''your weight'', Lit ''your age'', Lit ''how old'',
          Lit ''how tall'', Seq (Lit ''what'') (Seq (Rep0 AnyChar) (Lit ''height'')),
          Seq (Lit ''what'') (Seq (Rep0 AnyChar) (Lit ''weight'')), Lit ''enter your name'',
          Lit ''your name'']"

text \<open>The navigation pattern of \<^verbatim>\<open>countOptionLikeButtons\<close> (anchored at the start).\<close>

definition navCta :: regex where
  "navCta =
     Alt [Lit ''accept'', Lit ''reject'', Lit ''allow'', Lit ''agree'', Lit ''cookie'', Lit ''close'',
          Lit ''skip'', Seq (Lit ''setting'') (Opt (Lit ''s'')), Lit ''einstellung'',
          Lit ''datenschutz'', Lit ''terms'', Lit ''privacy'', Lit ''ablehnen'', Lit ''akzeptieren'']"

text \<open>The language names (anchored at both ends).\<close>

definition languageOption :: regex where
  "languageOption =
     lits [''english'', ''espanol'', ''espa'' @ [CHR 0xC3, CHR 0xB1] @ ''ol'', ''deutsch'',
           ''francais'', ''fran'' @ [CHR 0xC3, CHR 0xA7] @ ''ais'', ''italiano'', ''portuguese'',
           ''portugu'' @ [CHR 0xC3, CHR 0xAA] @ ''s'', ''polski'', ''nederlands'', ''turkce'',
           ''tuerkce'', ''turkish'', ''ukrainian'',
           [CHR 0xD1, CHR 0x80, CHR 0xD1, CHR 0x83, CHR 0xD1, CHR 0x81, CHR 0xD1, CHR 0x81,
            CHR 0xD0, CHR 0xBA, CHR 0xD0, CHR 0xB8, CHR 0xD0, CHR 0xB9],
           ''russian'']"

subsection \<open>countOptionLikeButtons\<close>

text \<open>The loop over the first 20 visible buttons, with its two counters.\<close>

fun countButtonsLoop :: "string option list \<Rightarrow> nat \<Rightarrow> nat \<Rightarrow> nat \<times> nat" where
  "countButtonsLoop [] optionCount languageCount = (optionCount, languageCount)"
| "countButtonsLoop (b # bs) optionCount languageCount =
     (let text = trim (case b of None \<Rightarrow> [] | Some t \<Rightarrow> t)
      in if 0 < length text \<and> length text < 40 \<and> \<not> testStartI navCta text
         then (if testWholeI languageOption text
               then countButtonsLoop bs optionCount (languageCount + 1)
               else countButtonsLoop bs (optionCount + 1) languageCount)
         else countButtonsLoop bs optionCount languageCount)"

definition countOptionLikeButtons :: "document \<Rightarrow> nat" where
  "countOptionLikeButtons page =
     (case countButtonsLoop (take 20 (visibleButtons page)) 0 0 of
        (optionCount, languageCount) \<Rightarrow>
          if 4 \<le> languageCount \<and> optionCount \<le> 2 then 0 else optionCount)"

subsection \<open>countClickableOptionCards\<close>

definition excludedCardTags :: "string list" where
  "excludedCardTags = [''BUTTON'', ''A'', ''INPUT'', ''SELECT'', ''LABEL'']"

fun countCardsLoop :: "element list \<Rightarrow> string list \<Rightarrow> nat \<Rightarrow> nat" where
  "countCardsLoop [] seen count = count"
| "countCardsLoop (el # els) seen count =
     (if \<not> isHTMLElement el then countCardsLoop els seen count
      else if cursor el \<noteq> ''pointer'' then countCardsLoop els seen count
      else if tagName el \<in> set excludedCardTags then countCardsLoop els seen count
      else (let text = trim (textContent el)
            in if 0 < length text \<and> length text < 60 \<and> text \<notin> set seen
                  \<and> 40 < rectWidth el \<and> 30 < rectHeight el
               then countCardsLoop els (text # seen) (count + 1)
               else countCardsLoop els seen count))"

definition countClickableOptionCards :: "document \<Rightarrow> nat" where
  "countClickableOptionCards page = countCardsLoop (allElements page) [] 0"

subsection \<open>The rules, in the order of the source\<close>

definition priceMatches :: "document \<Rightarrow> nat" where
  "priceMatches page = countMatchesI pricePattern (toLowerCase (content page))"

definition paywallCtaCount :: "document \<Rightarrow> nat" where
  "paywallCtaCount page = length (filter (testI paywallKeywords) (controlTexts page))"

definition hasPaywallText :: "document \<Rightarrow> bool" where
  "hasPaywallText page = testI paywallTextPattern (toLowerCase (content page))"

definition aggressivePaywall :: "document \<Rightarrow> nat \<Rightarrow> bool" where
  "aggressivePaywall page step =
     (10 \<le> step \<and> 1 \<le> priceMatches page \<and> 1 \<le> paywallCtaCount page
      \<and> testI aggressivePattern (toLowerCase (content page)))"

definition lateStageSoftPaywall :: "document \<Rightarrow> nat \<Rightarrow> bool" where
  "lateStageSoftPaywall page step =
     (20 \<le> step \<and> 1 \<le> paywallCtaCount page
      \<and> testI softPaywallPattern (toLowerCase (content page)))"

definition lateStagePriceOfferPaywall :: "document \<Rightarrow> nat \<Rightarrow> bool" where
  "lateStagePriceOfferPaywall page step =
     (15 \<le> step \<and> 1 \<le> priceMatches page
      \<and> testI offerPattern (toLowerCase (content page)))"

definition strongPaywallSignal :: "document \<Rightarrow> nat \<Rightarrow> bool" where
  "strongPaywallSignal page step =
     (aggressivePaywall page step
      \<or> lateStageSoftPaywall page step
      \<or> (1 \<le> paywallCtaCount page
          \<and> (2 \<le> priceMatches page \<or> (1 \<le> priceMatches page \<and> hasPaywallText page)))
      \<or> lateStagePriceOfferPaywall page step)"

definition hasEmailType :: "document \<Rightarrow> bool" where
  "hasEmailType page = (0 < emailTypeInputs page)"

definition hasEmailAutocomplete :: "document \<Rightarrow> bool" where
  "hasEmailAutocomplete page = (0 < emailAutocompleteInputs page)"

definition hasEmailName :: "document \<Rightarrow> bool" where
  "hasEmailName page = (0 < emailNameInputs page)"

definition hasEmailPlaceholder :: "document \<Rightarrow> bool" where
  "hasEmailPlaceholder page = (0 < emailPlaceholderInputs page)"

definition hasRadioOrCheckbox :: "document \<Rightarrow> bool" where
  "hasRadioOrCheckbox page = (1 \<le> radios page \<or> 1 \<le> checkboxes page)"

definition bodyText :: "document \<Rightarrow> string" where
  "bodyText page =
     trim (collapseSpaces (case bodyInnerText page of None \<Rightarrow> [] | Some t \<Rightarrow> t))"

definition hasAnyInput :: "document \<Rightarrow> bool" where
  "hasAnyInput page = (0 < (case visibleFormControls page of None \<Rightarrow> 0 | Some n \<Rightarrow> n))"

definition ctaCount :: "document \<Rightarrow> nat" where
  "ctaCount page = length (visibleButtons page)"

definition classifyScreen :: "document \<Rightarrow> nat \<Rightarrow> ScreenClassification" where
  "classifyScreen page step =
     (if 1 < step \<and> strongPaywallSignal page step then
        \<lparr>type = Paywall,
         reason = ''Found '' @ string_of_nat (priceMatches page)
                  @ '' price(s), billing terms, and paywall CTA.''\<rparr>
      else if hasEmailType page then
        \<lparr>type = Email, reason = ''Detected input[type=email].''\<rparr>
      else if hasEmailAutocomplete page then
        \<lparr>type = Email, reason = ''Detected input[autocomplete*='email'].''\<rparr>
      else if hasEmailName page then
        \<lparr>type = Email, reason = ''Detected input[name*='email'].''\<rparr>
      else if hasEmailPlaceholder page then
        \<lparr>type = Email, reason = ''Detected input[placeholder*='mail'].''\<rparr>
      else if \<not> hasRadioOrCheckbox page \<and> (1 \<le> textInputs page \<or> 1 \<le> hintInputs page) then
        \<lparr>type = Input, reason = ''Found form fields for profile/data (no radio/checkbox).''\<rparr>
      else if \<not> hasRadioOrCheckbox page \<and> testI inputKeywords (bodyText page) then
        \<lparr>type = Input,
         reason = ''Body text mentions profile data input (height/weight/age/name).''\<rparr>
      else
        (let optionsCount = radios page + checkboxes page
         in if 2 \<le> radios page \<or> 2 \<le> checkboxes page \<or> 2 \<le> optionsCount then
              \<lparr>type = Question,
               reason = ''Found '' @ string_of_nat optionsCount @ '' radio/checkbox options.''\<rparr>
            else
              (let optionButtons = countOptionLikeButtons page
               in if 2 \<le> optionButtons then
                    \<lparr>type = Question,
                     reason = ''Found '' @ string_of_nat optionButtons
                              @ '' option-like buttons (no radio/checkbox).''\<rparr>
                  else
                    (let optionCards = countClickableOptionCards page
                     in if 2 \<le> optionCards then
                          \<lparr>type = Question,
                           reason = ''Found '' @ string_of_nat optionCards
                                    @ '' clickable option cards.''\<rparr>
                        else if \<not> hasAnyInput page \<and> optionsCount = 0 \<and> ctaCount page = 1
                                \<and> 20 < length (bodyText page) then
                          \<lparr>type = Info,
                           reason = ''Text screen with exactly one CTA button and no inputs/options.''\<rparr>
                        else
                          \<lparr>type = Other, reason = ''No MVP heuristic matched.''\<rparr>))))"

text \<open>Lines 123 to 127 of the driver: the classification a step works with. A paywall
  answer at step 1 is replaced by \<open>Other\<close>.\<close>

definition classifyStep :: "document \<Rightarrow> nat \<Rightarrow> ScreenClassification" where
  "classifyStep page step =
     (let classification = classifyScreen page step
      in if step = 1 \<and> type classification = Paywall
         then \<lparr>type = Other, reason = ''Forced non-paywall on STEP 01.''\<rparr>
         else classification)"

section \<open>The action dispatcher (stepHandler)\<close>

text \<open>
  The browser is an external collaborator: what a query or a click answers is an input of
  the model. Every call of the source that asks the page something has its own
  observation, since the page may change between two calls.
\<close>

record ActionResult =
  performed :: bool
  messages :: "string list"


definition dq :: string where
  "dq = [CHR 0x22]"

subsection \<open>Click primitives\<close>

text \<open>The three attempts of \<^verbatim>\<open>clickLocator\<close>: a normal click, a forced click, a click by
  script in the page. Each field says whether that attempt goes through.\<close>

record click_obs =
  normalClick :: bool
  forcedClick :: bool
  scriptClick :: bool

definition clickLocator :: "click_obs \<Rightarrow> bool" where
  "clickLocator locator =
     (if normalClick locator then True
      else if forcedClick locator then True
      else if scriptClick locator then True
      else False)"

text \<open>What a locator built from a text or a selector answers: how many elements it
  matches, whether the first is visible, and how a click on it goes.\<close>

record probe =
  found :: nat
  isVisible :: bool
  target :: click_obs

type_synonym finder = "string \<Rightarrow> probe"

fun clickAnyByText :: "finder \<Rightarrow> string list \<Rightarrow> bool" where
  "clickAnyByText page [] = False"
| "clickAnyByText page (text # texts) =
     (let anyByText = page text
      in if found anyByText = 0 then clickAnyByText page texts
         else if \<not> isVisible anyByText then clickAnyByText page texts
         else if clickLocator (target anyByText) then True
         else clickAnyByText page texts)"

fun clickFirstVisible :: "finder \<Rightarrow> string list \<Rightarrow> bool" where
  "clickFirstVisible page [] = False"
| "clickFirstVisible page (selector # selectors) =
     (let locator = page selector
      in if found locator = 0 then clickFirstVisible page selectors
         else if \<not> isVisible locator then clickFirstVisible page selectors
         else if clickLocator (target locator) then True
         else clickFirstVisible page selectors)"

fun clickByText :: "finder \<Rightarrow> string list \<Rightarrow> bool" where
  "clickByText page [] = False"
| "clickByText page (text # texts) =
     (let button = page text
      in if found button = 0 then clickByText page texts
         else if \<not> isVisible button then clickByText page texts
         else if clickLocator (target button) then True
         else clickByText page texts)"

subsection \<open>closeCommonPopups\<close>

record popup_obs =
  cookieButtons :: finder
  consentButtons :: finder
  closeIcons :: finder

definition cookiePhrases :: "string list" where
  "cookiePhrases =
     [''^accept all cookies$'', ''^accept all$'', ''^allow all$'', ''^alle akzeptieren$'',
      ''^got it$'', ''^continue without accepting$'', ''^continue without$'',
      ''^alle ablehnen$'', ''^i agree$'', ''^i accept$'']"

definition consentSelectors :: "string list" where
  "consentSelectors =
     [''#onetrust-accept-btn-handler'', ''.cc-btn.cc-allow'', ''[data-testid*='cookie-accept']'',
      ''.cookie-banner button'', ''.consent-banner button'', ''#truste-consent-button'',
      ''.truste_overlay button'']"

definition closeSelectors :: "string list" where
  "closeSelectors =
     [''[aria-label='' @ dq @ ''close'' @ dq @ '']'', ''[aria-label='Close']'',
      ''[aria-label='' @ dq @ ''Close dialog'' @ dq @ '']'', ''[data-testid*='close']'',
      ''.modal-close'', ''.popup-close'']"

text \<open>The loop over the cookie phrases: the first button that is found, visible and
  clicked ends it.\<close>

fun closeCookies :: "finder \<Rightarrow> string list \<Rightarrow> string list" where
  "closeCookies page [] = []"
| "closeCookies page (pattern # patterns) =
     (let btn = page pattern
      in if 0 < found btn \<and> isVisible btn
         then (if clickLocator (target btn)
               then [''Closed cookie/popup via exact phrase: '' @ pattern]
               else closeCookies page patterns)
         else closeCookies page patterns)"

definition closeCommonPopups :: "popup_obs \<Rightarrow> string list" where
  "closeCommonPopups page =
     closeCookies (cookieButtons page) cookiePhrases
     @ (if clickFirstVisible (consentButtons page) consentSelectors
        then [''Closed consent banner via framework selector.''] else [])
     @ (if clickFirstVisible (closeIcons page) closeSelectors
        then [''Clicked close icon.''] else [])"

subsection \<open>Configured form values (INPUT_DEFAULTS)\<close>

definition default_name :: string where "default_name = ''John''"
definition default_height :: string where "default_height = ''170''"
definition default_weight :: string where "default_weight = ''65''"
definition default_age :: string where "default_age = ''30''"
definition default_email :: string where "default_email = ''test@example.com''"

subsection \<open>fillInputByHints\<close>

text \<open>One visible text field: whether it is disabled or read-only (also when asking
  fails), its four descriptor attributes, and the body text read when no descriptor
  matches (\<open>None\<close> when reading fails).\<close>

record input_obs =
  inputDisabled :: bool
  placeholderAttr :: "string option"
  nameAttr :: "string option"
  idAttr :: "string option"
  ariaLabelAttr :: "string option"
  bodyAtFill :: "string option"

definition orEmpty :: "string option \<Rightarrow> string" where
  "orEmpty v = (case v of None \<Rightarrow> [] | Some s \<Rightarrow> s)"

definition hintMapping :: "(regex \<times> string \<times> string) list" where
  "hintMapping =
     [(lits [''name'', ''first name'', ''your name''], default_name, ''name''),
      (lits [''height'', ''cm''], default_height, ''height''),
      (lits [''weight'', ''kg'', ''lbs''], default_weight, ''weight''),
      (lits [''age'', ''years old'', ''yo''], default_age, ''age'')]"

definition guessFromBody :: "string \<Rightarrow> string" where
  "guessFromBody bodyText' =
     (if testI (lits [''height'', ''how tall'']) bodyText' then default_height
      else if testI (lits [''weight'']) bodyText' then default_weight
      else if testI (lits [''age'', ''how old'']) bodyText' then default_age
      else if testI (lits [''name'']) bodyText' then default_name
      else ''1'')"

fun fillInputByHints :: "input_obs list \<Rightarrow> string list" where
  "fillInputByHints [] = []"
| "fillInputByHints (inp # inputs) =
     (if inputDisabled inp then fillInputByHints inputs
      else
        (let descriptor = orEmpty (placeholderAttr inp) @ '' '' @ orEmpty (nameAttr inp) @ '' ''
                          @ orEmpty (idAttr inp) @ '' '' @ orEmpty (ariaLabelAttr inp)
         in (case find (\<lambda>item. testI (fst item) descriptor) hintMapping of
               Some (hints, v, label) \<Rightarrow> (''Filled '' @ label @ ''='' @ v) # fillInputByHints inputs
             | None \<Rightarrow>
                 (''Filled field='' @ guessFromBody (toLowerCase (orEmpty (bodyAtFill inp))))
                 # fillInputByHints inputs)))"

subsection \<open>clickContinue and clickQuestionCta\<close>

text \<open>The three searches of a call-to-action click, each with its own view of the page.\<close>

record cta_obs =
  byText :: finder
  byAnyText :: finder
  bySelector :: finder

definition continueTexts :: "string list" where
  "continueTexts =
     [''continue'', ''next'', ''start'', ''begin'', ''get started'', ''unlock'', ''let's go'',
      ''go on'', ''submit'', ''see'', ''get'', ''show'', ''claim'', ''yes'']"

definition continueSelectors :: "string list" where
  "continueSelectors =
     [''button[type='submit']'', ''input[type='submit']'', ''button:has-text('>')'',
      ''[data-testid*='next']'', ''[class*='next']'']"

definition clickContinue :: "cta_obs \<Rightarrow> bool" where
  "clickContinue page =
     (if clickByText (byText page) continueTexts then True
      else if clickAnyByText (byAnyText page) continueTexts then True
      else clickFirstVisible (bySelector page) continueSelectors)"

definition strictTexts :: "string list" where
  "strictTexts =
     [''continue'', ''next'', ''see results'', ''get plan'', ''show my plan'', ''unlock'',
      ''start'', ''begin'', ''get started'', ''claim'', ''yes'', ''submit'']"

definition clickQuestionCta :: "cta_obs \<Rightarrow> bool" where
  "clickQuestionCta page =
     (if clickByText (byText page) strictTexts then True
      else if clickAnyByText (byAnyText page) strictTexts then True
      else False)"

subsection \<open>runEmailSubmitChain, fillEmailByHints, submitEmailStep\<close>

text \<open>What \<^verbatim>\<open>getSnapshot\<close> reads: the address and the markup (\<open>None\<close> when reading
  the markup fails).\<close>

record snapshot_obs =
  snapUrl :: string
  snapHtml :: "string option"

definition getSnapshot :: "snapshot_obs \<Rightarrow> string" where
  "getSnapshot page = snapUrl page @ ''|'' @ string_of_nat (length (orEmpty (snapHtml page)))"

record email_chain_obs =
  beforeSubmit :: snapshot_obs
  emailFieldCount :: nat
  emailFieldVisible :: bool
  afterEnter :: snapshot_obs
  submitButton :: probe
  afterCta :: snapshot_obs
  genericSubmit :: probe
  afterGenericSubmit :: snapshot_obs
  submittedByJs :: bool

definition runEmailSubmitChain :: "email_chain_obs \<Rightarrow> string list" where
  "runEmailSubmitChain page =
     (let beforeSubmitSnapshot = getSnapshot (beforeSubmit page);
          messages1 =
            (if 0 < emailFieldCount page \<and> emailFieldVisible page
             then [''Filled email='' @ default_email, ''Triggered blur + Enter.'']
             else [])
      in if getSnapshot (afterEnter page) \<noteq> beforeSubmitSnapshot
         then messages1 @ [''Transition detected after Enter.'']
         else
           (let clickedSubmit =
                  (0 < found (submitButton page) \<and> isVisible (submitButton page)
                   \<and> clickLocator (target (submitButton page)));
                messages2 =
                  messages1 @ (if clickedSubmit then [''Clicked email submit button.''] else [])
            in if clickedSubmit \<and> getSnapshot (afterCta page) \<noteq> beforeSubmitSnapshot
               then messages2 @ [''Transition detected after email CTA click.'']
               else
                 (let clickedGeneric =
                        (0 < found (genericSubmit page) \<and> isVisible (genericSubmit page)
                         \<and> clickLocator (target (genericSubmit page)));
                      messages3 =
                        messages2
                        @ (if clickedGeneric then [''Clicked generic submit control.''] else [])
                  in if clickedGeneric
                        \<and> getSnapshot (afterGenericSubmit page) \<noteq> beforeSubmitSnapshot
                     then messages3 @ [''Transition detected after generic submit click.'']
                     else messages3
                          @ (if submittedByJs page then [''Submitted form via JS fallback.'']
                             else []))))"

record email_hint_obs =
  emailLikeFound :: nat
  emailLikeVisible :: bool
  emailLikeFilled :: bool

definition fillEmailByHints :: "email_hint_obs \<Rightarrow> bool" where
  "fillEmailByHints page =
     (if emailLikeFound page = 0 \<or> \<not> emailLikeVisible page then False
      else emailLikeFilled page)"

record submit_email_obs =
  chain :: email_chain_obs
  explicitEmailCount :: nat
  emailHints :: email_hint_obs

definition submitEmailStep :: "submit_email_obs \<Rightarrow> string list" where
  "submitEmailStep page =
     (let messages0 = runEmailSubmitChain (chain page)
      in if explicitEmailCount page = 0
         then (if fillEmailByHints (emailHints page)
               then messages0 @ [''Filled email-like input by descriptor hints.'']
               else messages0)
         else messages0)"

subsection \<open>Option selection\<close>

definition SMART_KEYWORDS :: "string list" where
  "SMART_KEYWORDS =
     [''personal'', ''custom'', ''plan'', ''result'', ''my'', ''recommend'', ''tailored'',
      ''detailed'', ''unlock'', ''see'', ''show'']"

text \<open>\<^verbatim>\<open>SMART_KEYWORDS.some((k) => text.includes(k))\<close>\<close>

definition isSmart :: "string \<Rightarrow> bool" where
  "isSmart text = list_ex (includesStr text) SMART_KEYWORDS"

text \<open>The position of the first candidate whose text has a smart keyword.\<close>

fun findSmartFrom :: "nat \<Rightarrow> string list \<Rightarrow> nat option" where
  "findSmartFrom i [] = None"
| "findSmartFrom i (text # texts) = (if isSmart text then Some i else findSmartFrom (i + 1) texts)"

text \<open>
  Lines 438 to 464 of \<^verbatim>\<open>clickOptionWithLabel\<close>. The candidates are the label texts, in
  lower case, of the first 20 controls; candidate \<open>i\<close> has index \<open>i\<close>. The result is
  the chosen index, the cursor afterwards and the trace.
\<close>

definition chooseOption :: "string list \<Rightarrow> nat \<Rightarrow> nat option \<times> nat \<times> string list" where
  "chooseOption candidates shift =
     (case findSmartFrom 0 candidates of
        Some index \<Rightarrow>
          (Some index, shift,
           [''SMART: picked option '' @ string_of_nat index @ '' by keyword match: '' @ dq
            @ slice0 60 (candidates ! index) @ dq])
      | None \<Rightarrow>
          if 2 \<le> length candidates then
            (let cap = min (length candidates) 4;
                 rotateIndex = shift mod cap
             in (Some rotateIndex, shift + 1,
                 [''SMART: no keyword match, picked rotating option ''
                  @ string_of_nat (rotateIndex + 1) @ ''/'' @ string_of_nat (length candidates)
                  @ '' (index '' @ string_of_nat rotateIndex @ '').'']))
          else if 1 \<le> length candidates then
            (Some 0, shift, [''SMART: single option, picked first (index 0).''])
          else (None, shift, []))"

text \<open>What the page answers about the matched radio and checkbox controls: the label
  text found for each (\<open>None\<close> when none is found), and for the control at an index its
  \<^verbatim>\<open>role\<close>, \<^verbatim>\<open>type\<close> and \<^verbatim>\<open>id\<close> attributes and how each way of activating it
  goes.\<close>

record option_obs =
  optionLabels :: "string option list"
  optionRole :: "nat \<Rightarrow> string option"
  optionType :: "nat \<Rightarrow> string option"
  optionCheck :: "nat \<Rightarrow> bool"
  optionAriaClick :: "nat \<Rightarrow> click_obs"
  optionId :: "nat \<Rightarrow> string option"
  optionLabelFor :: "nat \<Rightarrow> probe"
  optionParentClicked :: "nat \<Rightarrow> bool"
  optionDirectClick :: "nat \<Rightarrow> click_obs"

text \<open>Lines 486 to 525: label, parent container, then the control itself.\<close>

definition clickChosenFallbacks :: "option_obs \<Rightarrow> nat \<Rightarrow> string list \<Rightarrow> bool \<times> string list" where
  "clickChosenFallbacks page chosenIndex msgs =
     (let inputId = orEmpty (optionId page chosenIndex);
          label = optionLabelFor page chosenIndex
      in if inputId \<noteq> [] \<and> 0 < found label \<and> isVisible label \<and> clickLocator (target label)
         then (True, msgs @ [''Clicked label for chosen option.''])
         else if optionParentClicked page chosenIndex
         then (True, msgs @ [''Clicked parent container of chosen option.''])
         else if clickLocator (optionDirectClick page chosenIndex)
         then (True, msgs @ [''Clicked chosen radio/checkbox input directly.''])
         else (False, msgs))"

definition clickOptionWithLabel :: "option_obs \<Rightarrow> nat \<Rightarrow> bool \<times> string list \<times> nat" where
  "clickOptionWithLabel page shift =
     (let total = length (optionLabels page)
      in if total = 0 then (False, [], shift)
         else
           (let candidates = map (\<lambda>l. toLowerCase (orEmpty l)) (take 20 (optionLabels page))
            in (case chooseOption candidates shift of
                  (None, shift', msgs) \<Rightarrow> (False, msgs, shift')
                | (Some chosenIndex, shift', msgs) \<Rightarrow>
                    (let role = orEmpty (optionRole page chosenIndex);
                         inputType = orEmpty (optionType page chosenIndex)
                     in if inputType = ''radio'' \<or> inputType = ''checkbox'' then
                          (if optionCheck page chosenIndex
                           then (True, msgs @ [''Set chosen option via input.check().''], shift')
                           else (case clickChosenFallbacks page chosenIndex msgs of
                                   (clicked, msgs') \<Rightarrow> (clicked, msgs', shift')))
                        else if (role = ''radio'' \<or> role = ''checkbox'')
                                \<and> clickLocator (optionAriaClick page chosenIndex) then
                          (True, msgs @ [''Clicked chosen ARIA radio/checkbox control.''], shift')
                        else (case clickChosenFallbacks page chosenIndex msgs of
                                (clicked, msgs') \<Rightarrow> (clicked, msgs', shift'))))))"

subsection \<open>clickFirstOptionButton\<close>

text \<open>The navigation pattern of the dispatcher has one more word than the classifier's.\<close>

definition navCtaButton :: regex where
  "navCtaButton =
     Alt [Lit ''accept'', Lit ''reject'', Lit ''allow'', Lit ''agree'', Lit ''cookie'', Lit ''close'',
          Lit ''skip'', Seq (Lit ''setting'') (Opt (Lit ''s'')), Lit ''einstellung'',
          Lit ''datenschutz'', Lit ''terms'', Lit ''privacy'', Lit ''ablehnen'', Lit ''akzeptieren'',
          Lit ''adjust'']"

record button_obs =
  buttonTexts :: "string option list"
  buttonClick :: "nat \<Rightarrow> click_obs"

text \<open>The loop over the first 20 visible buttons: the candidates (button index and text)
  and the count of language names.\<close>

fun collectButtons :: "nat \<Rightarrow> string option list \<Rightarrow> (nat \<times> string) list \<times> nat" where
  "collectButtons i [] = ([], 0)"
| "collectButtons i (b # bs) =
     (let text = trim (orEmpty b)
      in (case collectButtons (i + 1) bs of
            (candidates, languageOnlyCount) \<Rightarrow>
              if 0 < length text \<and> length text < 60 \<and> \<not> testStartI navCtaButton text
              then (if testWholeI languageOption text
                    then (candidates, languageOnlyCount + 1)
                    else ((i, text) # candidates, languageOnlyCount))
              else (candidates, languageOnlyCount)))"

text \<open>Lines 560 to 581. The chosen candidate is given by its position in the list.\<close>

definition chooseButton :: "string list \<Rightarrow> nat \<Rightarrow> nat option \<times> nat \<times> string list" where
  "chooseButton candidates shift =
     (case findSmartFrom 0 (map toLowerCase candidates) of
        Some pos \<Rightarrow>
          (Some pos, shift,
           [''SMART: picked button by keyword: '' @ dq @ slice0 60 (candidates ! pos) @ dq])
      | None \<Rightarrow>
          if 2 \<le> length candidates then
            (let cap = min (length candidates) 4;
                 rotateIndex = shift mod cap
             in (Some rotateIndex, shift + 1,
                 [''SMART: no keyword match, picked rotating button ''
                  @ string_of_nat (rotateIndex + 1) @ ''/'' @ string_of_nat (length candidates)
                  @ '': '' @ dq @ slice0 60 (candidates ! rotateIndex) @ dq]))
          else if 1 \<le> length candidates then
            (Some 0, shift,
             [''SMART: single candidate, picked first button: '' @ dq
              @ slice0 60 (candidates ! 0) @ dq])
          else (None, shift, []))"

definition clickFirstOptionButton :: "button_obs \<Rightarrow> nat \<Rightarrow> bool \<times> string list \<times> nat" where
  "clickFirstOptionButton page shift =
     (case collectButtons 0 (take 20 (buttonTexts page)) of
        (candidates, languageOnlyCount) \<Rightarrow>
          if candidates = [] \<and> 4 \<le> languageOnlyCount then
            (False, [''Skipped language switcher buttons; not treating as question options.''],
             shift)
          else if candidates = [] then (False, [], shift)
          else
            (case chooseButton (map snd candidates) shift of
               (None, shift', msgs) \<Rightarrow> (False, msgs, shift')
             | (Some pos, shift', msgs) \<Rightarrow>
                 (let chosen = candidates ! pos
                  in if clickLocator (buttonClick page (fst chosen))
                     then (True,
                           msgs @ [''Clicked option button: '' @ dq @ snd chosen @ dq @ ''.''],
                           shift')
                     else (False, msgs, shift'))))"

subsection \<open>clickFirstOptionCard\<close>

text \<open>The scan of the page for cards: the texts of the cards found, in document order.\<close>

fun collectCards :: "element list \<Rightarrow> string list \<Rightarrow> string list" where
  "collectCards [] seen = []"
| "collectCards (el # els) seen =
     (if \<not> isHTMLElement el then collectCards els seen
      else if cursor el \<noteq> ''pointer'' then collectCards els seen
      else if tagName el \<in> set excludedCardTags then collectCards els seen
      else (let text = trim (textContent el)
            in if 0 < length text \<and> length text < 60 \<and> text \<notin> set seen
                  \<and> 40 < rectWidth el \<and> 30 < rectHeight el
               then text # collectCards els (text # seen)
               else collectCards els seen))"

text \<open>Lines 620 to 630: a smart keyword, else the second card, else the first.\<close>

definition chooseCard :: "string list \<Rightarrow> nat option" where
  "chooseCard results =
     (case findSmartFrom 0 (map toLowerCase results) of
        Some pos \<Rightarrow> Some pos
      | None \<Rightarrow>
          if 2 \<le> length results then Some 1
          else if 1 \<le> length results then Some 0
          else None)"

text \<open>The whole function runs inside the page in one go, so the second scan, which
  looks the chosen card up again to click it, sees the elements of the first.\<close>

definition clickFirstOptionCard :: "element list \<Rightarrow> bool \<times> string list" where
  "clickFirstOptionCard page =
     (let results = collectCards page []
      in (case chooseCard results of
            None \<Rightarrow> (False, [])
          | Some pos \<Rightarrow>
              (let t = results ! pos;
                   label = (if isSmart (toLowerCase t) then ''SMART keyword match'' else ''fallback'')
               in (True, [''Clicked option card ('' @ label @ ''): '' @ dq @ t @ dq @ ''.'']))))"

subsection \<open>The selection step of the three click functions, side by side\<close>




subsection \<open>clickOtherCta\<close>

record other_obs =
  otherByText :: finder
  otherAnyText :: finder
  otherButtons :: button_obs
  otherCards :: "element list"
  otherFallback :: finder

definition ctaTexts :: "string list" where
  "ctaTexts =
     [''start'', ''continue'', ''next'', ''begin'', ''get started'', ''unlock'', ''let's go'',
      ''go on'', ''see'', ''get'', ''show'', ''claim'', ''yes'', ''submit'']"

definition otherFallbackSelectors :: "string list" where
  "otherFallbackSelectors =
     [''button'', ''[role='button']'', ''a[onclick]'', ''div[onclick]'', ''[class*='button' i]'',
      ''[class*='cta' i]'']"

definition clickOtherCta :: "other_obs \<Rightarrow> nat \<Rightarrow> bool \<times> string list \<times> nat" where
  "clickOtherCta page shift =
     (if clickByText (otherByText page) ctaTexts
      then (True, [''Clicked other-screen CTA by text.''], shift)
      else if clickAnyByText (otherAnyText page) ctaTexts
      then (True, [''Clicked other-screen CTA by loose text match.''], shift)
      else
        (case clickFirstOptionButton (otherButtons page) shift of
           (btnClicked, btnMessages, shift') \<Rightarrow>
             if btnClicked then (True, btnMessages, shift')
             else
               (case clickFirstOptionCard (otherCards page) of
                  (cardClicked, cardMessages) \<Rightarrow>
                    if cardClicked then (True, cardMessages, shift')
                    else if clickFirstVisible (otherFallback page) otherFallbackSelectors
                    then (True, [''Clicked other-screen fallback CTA.''], shift')
                    else (False, [], shift'))))"

subsection \<open>handleStepAction\<close>

text \<open>
  What the page answers during one call of the dispatcher, grouped by the branch that
  asks: the pop-up closer first, then the question, input, email, info and other
  branches.
\<close>

record action_page =
  popups :: popup_obs
  radioOrCheckboxCount :: "nat option"
  questionOptions :: option_obs
  questionButtons :: button_obs
  questionCards :: "element list"
  questionCta :: cta_obs
  inputFields :: "input_obs list"
  inputBody :: "string option"
  anyInputCount :: nat
  noInputContinue :: cta_obs
  noInputFallback :: finder
  firstContinue :: cta_obs
  secondContinue :: cta_obs
  realEmailCount :: nat
  realEmailVisible :: bool
  emailLikeCount :: nat
  emailHintFields :: "input_obs list"
  emailStep :: submit_email_obs
  consentLabels :: nat
  consentCheckboxes :: "bool list"
  emailContinue :: cta_obs
  infoContinue :: cta_obs
  infoFallback :: finder
  otherPage :: other_obs

definition visibleButtonSelectors :: "string list" where
  "visibleButtonSelectors = [''button:visible'', ''[role='button']:visible'']"

text \<open>The value guessed from the body text in the input branch (lines 766 to 771).\<close>

definition guessInputValue :: "string \<Rightarrow> string" where
  "guessInputValue bodyText' =
     (if testI (lits [''height'', ''cm'', ''how tall'']) bodyText' then default_height
      else if testI (lits [''weight'', ''kg'', ''lbs'']) bodyText' then default_weight
      else if testI (lits [''age'', ''how old'', ''years'']) bodyText' then default_age
      else if testI (lits [''name'']) bodyText' then default_name
      else ''1'')"

definition handleQuestion :: "action_page \<Rightarrow> string list \<Rightarrow> nat \<Rightarrow> ActionResult \<times> nat" where
  "handleQuestion page messages0 shift =
     (let count = (case radioOrCheckboxCount page of None \<Rightarrow> 0 | Some n \<Rightarrow> n)
      in (case clickOptionWithLabel (questionOptions page) shift of
            (optionClicked, optionMessages, shift1) \<Rightarrow>
              (case (if \<not> optionClicked \<and> count = 0
                     then (case clickFirstOptionButton (questionButtons page) shift1 of
                             (btnClicked, btnMessages, shift2) \<Rightarrow>
                               (btnClicked, optionMessages @ btnMessages, shift2))
                     else (optionClicked, optionMessages, shift1)) of
                 (clickedOption1, messages1, shift2) \<Rightarrow>
                   (case (if \<not> clickedOption1 \<and> count = 0
                          then (case clickFirstOptionCard (questionCards page) of
                                  (cardClicked, cardMessages) \<Rightarrow>
                                    (cardClicked, messages1 @ cardMessages))
                          else (clickedOption1, messages1)) of
                      (clickedOption, messages2) \<Rightarrow>
                        (let clickedContinue = clickQuestionCta (questionCta page);
                             pressedEnterFallback = \<not> clickedContinue;
                             messages3 =
                               messages0 @ messages2
                               @ (if clickedContinue then [''Clicked strict question CTA.'']
                                  else [''Pressed Enter as question CTA fallback.''])
                         in (\<lparr>performed = clickedOption \<or> clickedContinue \<or> pressedEnterFallback,
                              messages = messages3\<rparr>, shift2))))))"

definition handleInput :: "action_page \<Rightarrow> string list \<Rightarrow> ActionResult" where
  "handleInput page messages0 =
     (let messages1 = messages0 @ [''Input screen detected. Filling fields.''];
          fillMessages = fillInputByHints (inputFields page);
          messages2 = messages1 @ fillMessages
      in if length fillMessages = 0 \<and> \<not> 0 < anyInputCount page then
           (let messages3 = messages2 @ [''No input fields found. Treating as info screen.'']
            in if clickContinue (noInputContinue page)
               then \<lparr>performed = True,
                     messages = messages3 @ [''Clicked continue/next (no-input fallback).'']\<rparr>
               else if clickFirstVisible (noInputFallback page) visibleButtonSelectors
               then \<lparr>performed = True,
                     messages = messages3 @ [''Clicked fallback button (no-input screen).'']\<rparr>
               else \<lparr>performed = True,
                     messages = messages3
                                @ [''Waited 10s for animated transition (no inputs, no CTA).'']\<rparr>)
         else
           (let messages3 =
                  messages2
                  @ (if length fillMessages = 0
                     then [''Filled fallback input=''
                           @ guessInputValue (toLowerCase (orEmpty (inputBody page)))]
                     else [])
                  @ [''Input filled. Attempting continue.''];
                clickedFirst = clickContinue (firstContinue page);
                clickedContinue =
                  (if clickedFirst then True else clickContinue (secondContinue page));
                messages4 =
                  messages3
                  @ (if \<not> clickedContinue then [''Continue button still disabled after fill.'']
                     else [])
                  @ (if clickedContinue then [''Clicked continue/next.''] else [])
            in \<lparr>performed = 0 < length fillMessages \<or> clickedContinue, messages = messages4\<rparr>))"

text \<open>The two consent loops of the email branch.\<close>

definition consentLabelMessages :: "nat \<Rightarrow> string list" where
  "consentLabelMessages labelsCount =
     map (\<lambda>i. ''Clicked consent label '' @ string_of_nat (i + 1) @ ''.'') [0..<labelsCount]"

definition consentCheckboxMessages :: "bool list \<Rightarrow> string list" where
  "consentCheckboxMessages alreadyChecked =
     map (\<lambda>i. ''Clicked consent checkbox '' @ string_of_nat (i + 1) @ '' via ancestor.'')
         (filter (\<lambda>i. \<not> alreadyChecked ! i) [0..<length alreadyChecked])"

definition handleEmail :: "action_page \<Rightarrow> string list \<Rightarrow> ActionResult" where
  "handleEmail page messages0 =
     (let hasRealEmail = (0 < realEmailCount page \<and> realEmailVisible page);
          fillMessages =
            (if \<not> hasRealEmail \<and> \<not> 0 < emailLikeCount page
             then fillInputByHints (emailHintFields page) else []);
          emailMessages =
            (if \<not> hasRealEmail
             then (if 0 < emailLikeCount page
                   then [''Filled email='' @ default_email @ '' (text input fallback).'']
                   else fillMessages)
             else submitEmailStep (emailStep page));
          messages1 =
            messages0
            @ (if \<not> hasRealEmail
               then [''Email screen has no input[type=email]. Using email-like text input fallback.'']
                    @ fillMessages
               else [])
            @ emailMessages;
          labelsCount = consentLabels page;
          messages2 =
            messages1 @ consentLabelMessages labelsCount
            @ (if labelsCount = 0 then consentCheckboxMessages (consentCheckboxes page) else []);
          clickedContinue = clickContinue (emailContinue page);
          messages3 = messages2 @ (if clickedContinue then [''Clicked continue/next.''] else []);
          emailTransitionDetected =
            list_ex (\<lambda>message. includesStr message ''Transition detected'') emailMessages
      in \<lparr>performed = clickedContinue \<or> emailTransitionDetected, messages = messages3\<rparr>)"

definition handleInfo :: "action_page \<Rightarrow> string list \<Rightarrow> ActionResult" where
  "handleInfo page messages0 =
     (let clickedContinue = clickContinue (infoContinue page);
          messages1 = messages0 @ (if clickedContinue then [''Clicked continue/next.''] else [])
      in if \<not> clickedContinue \<and> clickFirstVisible (infoFallback page) visibleButtonSelectors
         then \<lparr>performed = True,
               messages = messages1 @ [''Clicked fallback button on info screen.'']\<rparr>
         else \<lparr>performed = clickedContinue, messages = messages1\<rparr>)"

text \<open>The dispatcher: the pop-up closer, then the branch of the archetype. The cursor
  goes in and comes out.\<close>

fun handleStepAction :: "action_page \<Rightarrow> ScreenType \<Rightarrow> nat \<Rightarrow> ActionResult \<times> nat" where
  "handleStepAction page Question shift =
     handleQuestion page (closeCommonPopups (popups page)) shift"
| "handleStepAction page Input shift =
     (handleInput page (closeCommonPopups (popups page)), shift)"
| "handleStepAction page Email shift =
     (handleEmail page (closeCommonPopups (popups page)), shift)"
| "handleStepAction page Info shift =
     (handleInfo page (closeCommonPopups (popups page)), shift)"
| "handleStepAction page Other shift =
     (case clickOtherCta (otherPage page) shift of
        (otherPerformed, otherMessages, shift') \<Rightarrow>
          (\<lparr>performed = otherPerformed,
            messages = closeCommonPopups (popups page) @ otherMessages\<rparr>, shift'))"
| "handleStepAction page Paywall shift =
     (\<lparr>performed = False, messages = closeCommonPopups (popups page)\<rparr>, shift)"

section \<open>The funnel driver loop (runFunnel)\<close>

subsection \<open>Configuration (RUN_CONFIG)\<close>

definition maxSteps :: nat where
  "maxSteps = 60"

definition sameDomHashLimit :: nat where
  "sameDomHashLimit = 12"

subsection \<open>Fingerprints and errors\<close>

text \<open>What \<^verbatim>\<open>getStableDomSnapshot\<close> reads: whether the page is closed, the clock, the
  address and the markup (\<open>None\<close> when reading it fails).\<close>

record hash_obs =
  hashClosed :: bool
  hashNow :: nat
  hashUrl :: string
  hashHtml :: "string option"

definition getStableDomSnapshot :: "hash_obs \<Rightarrow> string" where
  "getStableDomSnapshot page =
     (if hashClosed page then ''CLOSED_PAGE_HASH_'' @ string_of_nat (hashNow page)
      else (let normalized = trim (collapseSpaces (orEmpty (hashHtml page)))
            in hashUrl page @ ''|'' @ string_of_nat (length normalized) @ '':''
               @ slice0 300 normalized))"

text \<open>An error is its message. The driver asks the same question of every message.\<close>

definition isClosedMessage :: "string \<Rightarrow> bool" where
  "isClosedMessage msg =
     (includesStr msg ''closed'' \<or> includesStr msg ''Target closed''
      \<or> includesStr msg ''has been closed'')"

subsection \<open>State of a run and observations of a step\<close>

text \<open>
  The variables of \<^verbatim>\<open>runFunnel\<close>, the rotation cursor of the dispatcher (which lives
  as long as the process), and \<open>iterations\<close>, which counts the passes of the loop that
  get beyond the two budget checks of lines 109 and 110.
\<close>

record run_state =
  detectedTypes :: "ScreenType list"
  reachedPaywall :: bool
  totalSteps :: nat
  previousHash :: string
  sameHashCount :: nat
  noActionCount :: nat
  emailReached :: bool
  fallbackOptionShift :: nat
  iterations :: nat

text \<open>
  What the browser answers during one step. An optional message stands for a call that
  may fail, with the message of the error:
  \<^item> \<open>pageIsClosed\<close>: \<^verbatim>\<open>page.isClosed()\<close> at the head of the step;
  \<^item> \<open>classifyError\<close>: the settle delay or the classifier fails;
  \<^item> \<open>snapshot\<close>: the document the classifier sees;
  \<^item> \<open>evidenceError\<close>: taking or copying the screenshot fails;
  \<^item> \<open>paywallContentError\<close>: reading the markup for the price diagnostics fails;
  \<^item> \<open>domSnapshot\<close>: the page when the fingerprint is taken;
  \<^item> \<open>emailRescueError\<close>, \<open>emailRescueSnapshot\<close>: the wait and the page after the
    confirm key of the stuck-email recovery;
  \<^item> \<open>loopRescueError\<close>, \<open>loopRescueSnapshot\<close>: the same for the rescue before a loop stop;
  \<^item> \<open>actionError\<close>: the dispatcher fails, after moving the cursor so many times;
  \<^item> \<open>actionPage\<close>: what the page answers to a dispatcher that returns;
  \<^item> \<open>transitionError\<close>: the wait for the transition fails.
  The log file is taken to be writable: the calls of the logger return, and the trace of a
  step, which goes to the log only, is left out.
\<close>

record step_obs =
  pageIsClosed :: bool
  classifyError :: "string option"
  snapshot :: document
  evidenceError :: "string option"
  paywallContentError :: "string option"
  domSnapshot :: hash_obs
  emailRescueError :: "string option"
  emailRescueSnapshot :: hash_obs
  loopRescueError :: "string option"
  loopRescueSnapshot :: hash_obs
  actionError :: "(string \<times> nat) option"
  actionPage :: action_page
  transitionError :: "string option"

datatype stop =
    BudgetExhausted
  | PageClosed
  | PaywallStop
  | LoopStop
  | ClosedDuringAction
  | NoActionStop
  | ClosedDuringStep
  | NavigationFailed

datatype outcome = Next | Break stop

subsection \<open>One step\<close>

text \<open>The handler of lines 236 to 247: a closed session stops the run, any other error
  is logged and the loop goes on.\<close>

definition onStepError :: "string \<Rightarrow> run_state \<Rightarrow> outcome \<times> run_state" where
  "onStepError msg st =
     (if isClosedMessage msg then (Break ClosedDuringStep, st) else (Next, st))"

text \<open>Lines 216 to 228: no action was performed.\<close>

definition onNoAction :: "run_state \<Rightarrow> outcome \<times> run_state" where
  "onNoAction st =
     (let st' = st\<lparr>noActionCount := noActionCount st + 1\<rparr>
      in if 2 \<le> noActionCount st' then (Break NoActionStop, st') else (Next, st'))"

text \<open>Lines 199 to 235: dispatch, then count or wait for the transition.\<close>

definition actPhase :: "step_obs \<Rightarrow> ScreenType \<Rightarrow> run_state \<Rightarrow> outcome \<times> run_state" where
  "actPhase obs ty st =
     (case actionError obs of
        Some (msg, bumps) \<Rightarrow>
          (let st1 = st\<lparr>fallbackOptionShift := fallbackOptionShift st + bumps\<rparr>
           in if isClosedMessage msg then (Break ClosedDuringAction, st1)
              else onNoAction st1)
      | None \<Rightarrow>
          (case handleStepAction (actionPage obs) ty (fallbackOptionShift st) of
             (actionResult, shift') \<Rightarrow>
               (let st1 = st\<lparr>fallbackOptionShift := shift'\<rparr>
                in if \<not> performed actionResult then onNoAction st1
                   else
                     (let st2 = st1\<lparr>noActionCount := 0\<rparr>
                      in (case transitionError obs of
                            Some msg \<Rightarrow> onStepError msg st2
                          | None \<Rightarrow> (Next, st2))))))"

text \<open>Lines 176 to 197: the loop check, with its rescue from step 8 on.\<close>

definition loopPhase ::
  "step_obs \<Rightarrow> nat \<Rightarrow> ScreenType \<Rightarrow> string \<Rightarrow> run_state \<Rightarrow> outcome \<times> run_state" where
  "loopPhase obs step ty domHash st =
     (if sameDomHashLimit \<le> sameHashCount st \<and> 2 \<le> noActionCount st then
        (if 8 \<le> step then
           (case loopRescueError obs of
              Some msg \<Rightarrow> onStepError msg st
            | None \<Rightarrow>
                (let rescueHash = getStableDomSnapshot (loopRescueSnapshot obs)
                 in if rescueHash \<noteq> domHash
                    then (Next, st\<lparr>sameHashCount := 1, previousHash := rescueHash\<rparr>)
                    else (Break LoopStop, st)))
         else (Break LoopStop, st))
      else actPhase obs ty st)"

text \<open>Lines 155 to 174: the fingerprint, and the recovery of a stuck email screen.\<close>

definition fingerprintPhase ::
  "step_obs \<Rightarrow> nat \<Rightarrow> ScreenType \<Rightarrow> run_state \<Rightarrow> outcome \<times> run_state" where
  "fingerprintPhase obs step ty st =
     (let domHash = getStableDomSnapshot (domSnapshot obs);
          st1 = st\<lparr>sameHashCount :=
                      (if domHash = previousHash st then sameHashCount st + 1 else 1),
                    previousHash := domHash\<rparr>
      in if ty = Email \<and> 3 \<le> sameHashCount st1 then
           (case emailRescueError obs of
              Some msg \<Rightarrow> onStepError msg st1
            | None \<Rightarrow>
                (let rescueHash = getStableDomSnapshot (emailRescueSnapshot obs);
                     st2 = (if rescueHash \<noteq> domHash
                            then st1\<lparr>sameHashCount := 1, previousHash := rescueHash\<rparr>
                            else st1)
                 in loopPhase obs step ty domHash st2))
         else loopPhase obs step ty domHash st1)"

text \<open>\<^verbatim>\<open>detectedTypes.add\<close>\<close>

definition addType :: "ScreenType \<Rightarrow> ScreenType list \<Rightarrow> ScreenType list" where
  "addType ty types = (if ty \<in> set types then types else types @ [ty])"

text \<open>Lines 120 to 247: the body of the loop inside its handler.\<close>

definition stepBody :: "step_obs \<Rightarrow> nat \<Rightarrow> run_state \<Rightarrow> outcome \<times> run_state" where
  "stepBody obs step st =
     (case classifyError obs of
        Some msg \<Rightarrow> onStepError msg st
      | None \<Rightarrow>
          (let ty = type (classifyStep (snapshot obs) step)
           in (case evidenceError obs of
                 Some msg \<Rightarrow> onStepError msg st
               | None \<Rightarrow>
                   (let st1 = st\<lparr>totalSteps := totalSteps st + 1,
                                  detectedTypes := addType ty (detectedTypes st),
                                  emailReached := (emailReached st \<or> ty = Email)\<rparr>
                    in if ty = Paywall then
                         (case paywallContentError obs of
                            Some msg \<Rightarrow> onStepError msg st1
                          | None \<Rightarrow> (Break PaywallStop, st1\<lparr>reachedPaywall := True\<rparr>))
                       else fingerprintPhase obs step ty st1))))"

subsection \<open>The loop\<close>

function runLoop :: "(nat \<Rightarrow> step_obs) \<Rightarrow> nat \<Rightarrow> run_state \<Rightarrow> stop \<times> run_state" where
  "runLoop env step st =
     (if step \<le> maxSteps + 15 then
        (if \<not> emailReached st \<and> maxSteps < step then (BudgetExhausted, st)
         else if emailReached st \<and> maxSteps + 15 < step then (BudgetExhausted, st)
         else
           (let st0 = st\<lparr>iterations := iterations st + 1\<rparr>
            in if pageIsClosed (env step) then (PageClosed, st0)
               else (case stepBody (env step) step st0 of
                       (Next, st') \<Rightarrow> runLoop env (step + 1) st'
                     | (Break why, st') \<Rightarrow> (why, st'))))
      else (BudgetExhausted, st))"
  by pat_completeness auto
termination
  by (relation "measure (\<lambda>(env, step, st). maxSteps + 16 - step)") auto

declare runLoop.simps [simp del]

text \<open>The state a run starts in (lines 68 to 70 and 102 to 105), with the cursor the
  process has reached.\<close>

definition initialState :: "nat \<Rightarrow> run_state" where
  "initialState shift =
     \<lparr>detectedTypes = [], reachedPaywall = False, totalSteps = 0, previousHash = [],
      sameHashCount = 0, noActionCount = 0, emailReached = False,
      fallbackOptionShift = shift, iterations = 0\<rparr>"

text \<open>\<^verbatim>\<open>runFunnel\<close>: the page is opened, at the first attempt or at the retry, and the
  loop starts at step 1. When both attempts fail the run ends with nothing done.\<close>

definition runFunnel ::
  "bool \<Rightarrow> bool \<Rightarrow> (nat \<Rightarrow> step_obs) \<Rightarrow> nat \<Rightarrow> stop \<times> run_state" where
  "runFunnel gotoFirst gotoRetry env shift =
     (if gotoFirst \<or> gotoRetry then runLoop env 1 (initialState shift)
      else (NavigationFailed, initialState shift))"

subsection \<open>Signals of a closed session\<close>





section \<open>Example pages\<close>

text \<open>The pages the statements below are tried on. Each is the snapshot of a small
  document: its markup, its controls, and what the other queries answer on it.\<close>

definition plainElement :: "string \<Rightarrow> string \<Rightarrow> element" where
  "plainElement tag txt =
     \<lparr>isHTMLElement = True, cursor = ''auto'', tagName = tag, textContent = txt,
      rectWidth = 390, rectHeight = 48\<rparr>"

definition emptyDocument :: document where
  "emptyDocument =
     \<lparr>content = ''<html><head></head><body></body></html>'', controlTexts = [],
      emailTypeInputs = 0, emailAutocompleteInputs = 0, emailNameInputs = 0,
      emailPlaceholderInputs = 0, radios = 0, checkboxes = 0, textInputs = 0, hintInputs = 0,
      bodyInnerText = Some [], visibleButtons = [],
      allElements = [plainElement ''HTML'' [], plainElement ''HEAD'' [], plainElement ''BODY'' []],
      visibleFormControls = Some 0\<rparr>"

text \<open>A price and one purchase button, nothing else.\<close>

definition docSubscribe49 :: document where
  "docSubscribe49 =
     emptyDocument
       \<lparr>content :=
          ''<html><head></head><body><p>$49</p><button>Subscribe Now</button></body></html>'',
        controlTexts := [''Subscribe Now''],
        bodyInnerText := Some (''$49'' @ [CHR 0x0A, CHR 0x0A] @ ''Subscribe Now''),
        visibleButtons := [Some ''Subscribe Now''],
        allElements :=
          [plainElement ''HTML'' ''$49Subscribe Now'', plainElement ''HEAD'' [],
           plainElement ''BODY'' ''$49Subscribe Now'', plainElement ''P'' ''$49'',
           plainElement ''BUTTON'' ''Subscribe Now'']\<rparr>"

text \<open>The same with billing vocabulary next to the price.\<close>

definition docMonthly :: document where
  "docMonthly =
     emptyDocument
       \<lparr>content :=
          ''<html><head></head><body><p>$49 per month</p><button>Subscribe Now</button></body></html>'',
        controlTexts := [''Subscribe Now''],
        bodyInnerText := Some (''$49 per month'' @ [CHR 0x0A, CHR 0x0A] @ ''Subscribe Now''),
        visibleButtons := [Some ''Subscribe Now''],
        allElements :=
          [plainElement ''HTML'' ''$49 per monthSubscribe Now'', plainElement ''HEAD'' [],
           plainElement ''BODY'' ''$49 per monthSubscribe Now'', plainElement ''P'' ''$49 per month'',
           plainElement ''BUTTON'' ''Subscribe Now'']\<rparr>"


text \<open>Two radio controls and two text fields.\<close>

definition docRadiosAndFields :: document where
  "docRadiosAndFields =
     emptyDocument
       \<lparr>content :=
          ''<html><head></head><body><input type='' @ dq @ ''radio'' @ dq @ ''><input type='' @ dq
          @ ''radio'' @ dq @ ''><input type='' @ dq @ ''text'' @ dq @ ''><input type='' @ dq
          @ ''text'' @ dq @ ''></body></html>'',
        radios := 2, textInputs := 2,
        allElements :=
          [plainElement ''HTML'' [], plainElement ''HEAD'' [], plainElement ''BODY'' [],
           plainElement ''INPUT'' [], plainElement ''INPUT'' [], plainElement ''INPUT'' [],
           plainElement ''INPUT'' []],
        visibleFormControls := Some 4\<rparr>"

text \<open>No price, the heading "Choose your plan", and one button.\<close>

definition docPlanWith :: "string \<Rightarrow> document" where
  "docPlanWith buttonLabel =
     emptyDocument
       \<lparr>content :=
          ''<html><head></head><body><h1>Choose your plan</h1><button>'' @ buttonLabel
          @ ''</button></body></html>'',
        controlTexts := [buttonLabel],
        bodyInnerText := Some (''Choose your plan'' @ [CHR 0x0A, CHR 0x0A] @ buttonLabel),
        visibleButtons := [Some buttonLabel],
        allElements :=
          [plainElement ''HTML'' (''Choose your plan'' @ buttonLabel), plainElement ''HEAD'' [],
           plainElement ''BODY'' (''Choose your plan'' @ buttonLabel),
           plainElement ''H1'' ''Choose your plan'', plainElement ''BUTTON'' buttonLabel]\<rparr>"

definition docStartTrial :: document where
  "docStartTrial = docPlanWith ''Start Trial''"

definition docStartPlan :: document where
  "docStartPlan = docPlanWith ''Start Plan''"

text \<open>A welcome text with one "Continue" button.\<close>

definition docWelcome :: document where
  "docWelcome =
     emptyDocument
       \<lparr>content :=
          ''<html><head></head><body><p>Welcome to the quiz, take your time.</p><button>Continue</button></body></html>'',
        controlTexts := [''Continue''],
        bodyInnerText :=
          Some (''Welcome to the quiz, take your time.'' @ [CHR 0x0A, CHR 0x0A] @ ''Continue''),
        visibleButtons := [Some ''Continue''],
        allElements :=
          [plainElement ''HTML'' ''Welcome to the quiz, take your time.Continue'',
           plainElement ''HEAD'' [],
           plainElement ''BODY'' ''Welcome to the quiz, take your time.Continue'',
           plainElement ''P'' ''Welcome to the quiz, take your time.'',
           plainElement ''BUTTON'' ''Continue'']\<rparr>"

section \<open>Example answers of the browser\<close>

definition noClick :: click_obs where
  "noClick = \<lparr>normalClick = False, forcedClick = False, scriptClick = False\<rparr>"

definition okClick :: click_obs where
  "okClick = \<lparr>normalClick = True, forcedClick = False, scriptClick = False\<rparr>"

definition absent :: probe where
  "absent = \<lparr>found = 0, isVisible = False, target = noClick\<rparr>"

definition clickable :: probe where
  "clickable = \<lparr>found = 1, isVisible = True, target = okClick\<rparr>"

definition nothingFound :: finder where
  "nothingFound = (\<lambda>key. absent)"

definition onlyContinue :: finder where
  "onlyContinue = (\<lambda>key. if key = ''continue'' then clickable else absent)"

definition noPopups :: popup_obs where
  "noPopups =
     \<lparr>cookieButtons = nothingFound, consentButtons = nothingFound, closeIcons = nothingFound\<rparr>"

definition noCta :: cta_obs where
  "noCta = \<lparr>byText = nothingFound, byAnyText = nothingFound, bySelector = nothingFound\<rparr>"

definition continueCta :: cta_obs where
  "continueCta = \<lparr>byText = onlyContinue, byAnyText = nothingFound, bySelector = nothingFound\<rparr>"

definition noOptions :: option_obs where
  "noOptions =
     \<lparr>optionLabels = [], optionRole = (\<lambda>i. None), optionType = (\<lambda>i. None),
      optionCheck = (\<lambda>i. False), optionAriaClick = (\<lambda>i. noClick), optionId = (\<lambda>i. None),
      optionLabelFor = (\<lambda>i. absent), optionParentClicked = (\<lambda>i. False),
      optionDirectClick = (\<lambda>i. noClick)\<rparr>"

definition noButtons :: button_obs where
  "noButtons = \<lparr>buttonTexts = [], buttonClick = (\<lambda>i. noClick)\<rparr>"

definition quizSnapshot :: snapshot_obs where
  "quizSnapshot = \<lparr>snapUrl = ''https://quiz.example/email'', snapHtml = Some (replicate 20 CHR ''x'')\<rparr>"

text \<open>An email chain on a page without an email field, where nothing moves.\<close>

definition quietChain :: email_chain_obs where
  "quietChain =
     \<lparr>beforeSubmit = quizSnapshot, emailFieldCount = 0, emailFieldVisible = False,
      afterEnter = quizSnapshot, submitButton = absent, afterCta = quizSnapshot,
      genericSubmit = absent, afterGenericSubmit = quizSnapshot, submittedByJs = False\<rparr>"

definition quietEmailStep :: submit_email_obs where
  "quietEmailStep =
     \<lparr>chain = quietChain, explicitEmailCount = 0,
      emailHints = \<lparr>emailLikeFound = 0, emailLikeVisible = False, emailLikeFilled = False\<rparr>\<rparr>"

definition quietOther :: other_obs where
  "quietOther =
     \<lparr>otherByText = nothingFound, otherAnyText = nothingFound, otherButtons = noButtons,
      otherCards = [], otherFallback = nothingFound\<rparr>"

text \<open>A page on which the dispatcher finds nothing at all.\<close>

definition quietPage :: action_page where
  "quietPage =
     \<lparr>popups = noPopups, radioOrCheckboxCount = Some 0, questionOptions = noOptions,
      questionButtons = noButtons, questionCards = [], questionCta = noCta,
      inputFields = [], inputBody = Some [], anyInputCount = 0, noInputContinue = noCta,
      noInputFallback = nothingFound, firstContinue = noCta, secondContinue = noCta,
      realEmailCount = 0, realEmailVisible = False, emailLikeCount = 0, emailHintFields = [],
      emailStep = quietEmailStep, consentLabels = 0, consentCheckboxes = [],
      emailContinue = noCta, infoContinue = noCta, infoFallback = nothingFound,
      otherPage = quietOther\<rparr>"

text \<open>The welcome page as the dispatcher sees it: one button, found by the text
  "continue", whose click goes through.\<close>

definition welcomePage :: action_page where
  "welcomePage =
     quietPage
       \<lparr>questionButtons := \<lparr>buttonTexts = [Some ''Continue''], buttonClick = (\<lambda>i. okClick)\<rparr>,
        questionCta := continueCta, noInputContinue := continueCta,
        firstContinue := continueCta, secondContinue := continueCta,
        emailContinue := continueCta, infoContinue := continueCta,
        otherPage := quietOther\<lparr>otherByText := onlyContinue\<rparr>\<rparr>"

definition welcomeHash :: hash_obs where
  "welcomeHash =
     \<lparr>hashClosed = False, hashNow = 0, hashUrl = ''https://quiz.example/welcome'',
      hashHtml = Some (content docWelcome)\<rparr>"

text \<open>A step on the welcome page: nothing fails, the button is clicked, and the page
  stays as it is.\<close>

definition welcomeStep :: step_obs where
  "welcomeStep =
     \<lparr>pageIsClosed = False, classifyError = None, snapshot = docWelcome, evidenceError = None,
      paywallContentError = None, domSnapshot = welcomeHash, emailRescueError = None,
      emailRescueSnapshot = welcomeHash, loopRescueError = None,
      loopRescueSnapshot = welcomeHash, actionError = None, actionPage = welcomePage,
      transitionError = None\<rparr>"

definition staticRun :: "nat \<Rightarrow> step_obs" where
  "staticRun = (\<lambda>step. welcomeStep)"

section \<open>Example option screens\<close>




text \<open>Two cards, "Yes" and "No", each a block with a pointer cursor.\<close>

definition card :: "string \<Rightarrow> element" where
  "card txt =
     \<lparr>isHTMLElement = True, cursor = ''pointer'', tagName = ''DIV'', textContent = txt,
      rectWidth = 320, rectHeight = 64\<rparr>"



section \<open>Example email screen\<close>

text \<open>
  A sign-up form: a visible email field and a "Sign up" button inside a form. The
  field is filled, the button is clicked and the form is submitted by script, while
  address and markup length stay what they were; no control carries one of the words
  the final call-to-action click looks for.
\<close>

definition signupChain :: email_chain_obs where
  "signupChain =
     \<lparr>beforeSubmit = quizSnapshot, emailFieldCount = 1, emailFieldVisible = True,
      afterEnter = quizSnapshot, submitButton = clickable, afterCta = quizSnapshot,
      genericSubmit = absent, afterGenericSubmit = quizSnapshot, submittedByJs = True\<rparr>"

definition signupPage :: action_page where
  "signupPage =
     quietPage
       \<lparr>realEmailCount := 1, realEmailVisible := True,
        emailStep := quietEmailStep\<lparr>chain := signupChain, explicitEmailCount := 1\<rparr>\<rparr>"

section \<open>Example run with a failing dispatcher\<close>

text \<open>A question screen (two radio controls) on which every call of the dispatcher fails
  with an error that does not speak of a closed session.\<close>

definition radioHash :: hash_obs where
  "radioHash =
     \<lparr>hashClosed = False, hashNow = 0, hashUrl = ''https://quiz.example/q1'',
      hashHtml = Some (content docRadiosAndFields)\<rparr>"

definition failingStep :: step_obs where
  "failingStep =
     \<lparr>pageIsClosed = False, classifyError = None, snapshot = docRadiosAndFields,
      evidenceError = None, paywallContentError = None, domSnapshot = radioHash,
      emailRescueError = None, emailRescueSnapshot = radioHash, loopRescueError = None,
      loopRescueSnapshot = radioHash,
      actionError = Some (''Execution context was destroyed, most likely because of a navigation'', 0),
      actionPage = quietPage, transitionError = None\<rparr>"

definition failingRun :: "nat \<Rightarrow> step_obs" where
  "failingRun = (\<lambda>step. failingStep)"

text \<open>The same sign-up form when the address has changed after the confirm key.\<close>

definition movedPage :: action_page where
  "movedPage =
     quietPage
       \<lparr>realEmailCount := 1, realEmailVisible := True,
        emailStep :=
          quietEmailStep
            \<lparr>chain := signupChain\<lparr>afterEnter := quizSnapshot\<lparr>snapUrl := ''https://quiz.example/plan''\<rparr>\<rparr>,
             explicitEmailCount := 1\<rparr>\<rparr>"

text \<open>The question screen of the failing run when the dispatcher returns: it finds
  nothing to click and sends the confirm key.\<close>

definition answeredStep :: step_obs where
  "answeredStep = failingStep\<lparr>actionError := None\<rparr>"

text \<open>A state in which one step without action has been counted.\<close>

definition oneMissState :: run_state where
  "oneMissState = (initialState 0)\<lparr>noActionCount := 1\<rparr>"


section \<open>Example run on an email screen\<close>

text \<open>An email field and a "Continue" button. The field is filled and the button is
  clicked at every step, and the page stays as it is.\<close>

definition docEmailOnly :: document where
  "docEmailOnly =
     emptyDocument
       \<lparr>content :=
          ''<html><head></head><body><input type='' @ dq @ ''email'' @ dq
          @ ''><button>Continue</button></body></html>'',
        controlTexts := [''Continue''],
        emailTypeInputs := 1,
        bodyInnerText := Some ''Continue'',
        visibleButtons := [Some ''Continue''],
        allElements :=
          [plainElement ''HTML'' ''Continue'', plainElement ''HEAD'' [],
           plainElement ''BODY'' ''Continue'', plainElement ''INPUT'' [],
           plainElement ''BUTTON'' ''Continue''],
        visibleFormControls := Some 1\<rparr>"

definition emailFormPage :: action_page where
  "emailFormPage =
     quietPage
       \<lparr>realEmailCount := 1, realEmailVisible := True,
        emailStep :=
          quietEmailStep
            \<lparr>chain := signupChain\<lparr>submittedByJs := False\<rparr>, explicitEmailCount := 1\<rparr>,
        emailContinue := continueCta\<rparr>"

definition emailHash :: hash_obs where
  "emailHash =
     \<lparr>hashClosed = False, hashNow = 0, hashUrl = ''https://quiz.example/email'',
      hashHtml = Some (content docEmailOnly)\<rparr>"

definition emailOnlyStep :: step_obs where
  "emailOnlyStep =
     \<lparr>pageIsClosed = False, classifyError = None, snapshot = docEmailOnly, evidenceError = None,
      paywallContentError = None, domSnapshot = emailHash, emailRescueError = None,
      emailRescueSnapshot = emailHash, loopRescueError = None, loopRescueSnapshot = emailHash,
      actionError = None, actionPage = emailFormPage, transitionError = None\<rparr>"

definition emailRun :: "nat \<Rightarrow> step_obs" where
  "emailRun = (\<lambda>step. emailOnlyStep)"

section \<open>Example state at the loop check\<close>


section \<open>Properties of the classifier\<close>



text \<open>The rules after the paywall rule do not look at the step number.\<close>

lemma classifyScreen_step_independent:
  assumes "\<not> (1 < step \<and> strongPaywallSignal page step)"
    and "\<not> (1 < step' \<and> strongPaywallSignal page step')"
  shows "classifyScreen page step = classifyScreen page step'"
proof -
  have p: "(1 < step \<and> strongPaywallSignal page step) = False" using assms(1) by simp
  have q: "(1 < step' \<and> strongPaywallSignal page step') = False" using assms(2) by simp
  show ?thesis unfolding classifyScreen_def p q by (rule refl)
qed

lemma classifyScreen_first_step: "type (classifyScreen page 1) \<noteq> Paywall"
proof -
  have p: "((1::nat) < 1 \<and> strongPaywallSignal page 1) = False" by simp
  show ?thesis unfolding classifyScreen_def p by (simp add: Let_def)
qed

text \<open>
  Claim C4, as the code has it. The claim says that a document satisfying every paywall
  predicate classifies as other at step 1. On the page \<open>docMonthly\<close> (the text
  "$49 per month" and a "Subscribe Now" button) the price pattern, the purchase control
  and the billing vocabulary are all there, and the classifier answers info at step 1:
  the paywall rule is skipped at step 1 and the later rules decide.
\<close>

theorem first_step_counterexample:
  "1 \<le> priceMatches docMonthly \<and> 1 \<le> paywallCtaCount docMonthly \<and> hasPaywallText docMonthly
   \<and> strongPaywallSignal docMonthly 1
   \<and> type (classifyScreen docMonthly 1) = Info \<and> type (classifyStep docMonthly 1) = Info"
  by code_simp

text \<open>
  Claim C4, amended. At step 1 no document classifies as paywall, whatever paywall
  predicates it satisfies: the paywall rule is not applied, the driver's override has
  nothing to replace, and the answer is the one the rules after the paywall rule give (the
  same answer the classifier gives at any step where the paywall rule does not fire), which
  is other only when none of them matches. The page with the price text "$49" and a
  "Subscribe Now" button classifies as other at step 1.
\<close>

theorem first_step_never_paywall:
  "type (classifyScreen page 1) \<noteq> Paywall
   \<and> classifyStep page 1 = classifyScreen page 1
   \<and> (\<not> (1 < step \<and> strongPaywallSignal page step)
        \<longrightarrow> classifyScreen page 1 = classifyScreen page step)
   \<and> type (classifyStep docSubscribe49 1) = Other"
proof -
  have a: "type (classifyScreen page 1) \<noteq> Paywall"
    by (rule classifyScreen_first_step)
  have b: "classifyStep page 1 = classifyScreen page 1"
    using a by (simp add: classifyStep_def Let_def)
  have c: "\<not> (1 < step \<and> strongPaywallSignal page step)
        \<longrightarrow> classifyScreen page 1 = classifyScreen page step"
    using classifyScreen_step_independent [of 1 page step] by simp
  have d: "type (classifyStep docSubscribe49 1) = Other" by code_simp
  from a b c d show ?thesis by blast
qed

theorem first_step_never_paywall_witness:
  "\<not> (1 < (2::nat) \<and> strongPaywallSignal docSubscribe49 2)
   \<and> type (classifyScreen docSubscribe49 1) \<noteq> Paywall
   \<and> classifyScreen docSubscribe49 1 = classifyScreen docSubscribe49 2
   \<and> type (classifyScreen docSubscribe49 2) = Other"
proof -
  have h: "\<not> (1 < (2::nat) \<and> strongPaywallSignal docSubscribe49 2)" by code_simp
  have o: "type (classifyScreen docSubscribe49 2) = Other" by code_simp
  from first_step_never_paywall [of docSubscribe49 2] h o show ?thesis by blast
qed



text \<open>
  Claim C6, as the code has it. The page \<open>docStartTrial\<close> has no price token, the
  text "Choose your plan" and one button labelled "Start Trial". At step 22 the
  classifier answers info, not paywall: the label "Start Trial" has none of the purchase
  keywords, so no purchase control is counted.
\<close>

theorem start_trial_counterexample:
  "priceMatches docStartTrial = 0
   \<and> includesStr (content docStartTrial) ''Choose your plan''
   \<and> controlTexts docStartTrial = [''Start Trial'']
   \<and> paywallCtaCount docStartTrial = 0
   \<and> type (classifyScreen docStartTrial 22) = Info
   \<and> type (classifyStep docStartTrial 22) = Info"
  by code_simp

text \<open>
  Claim C6, amended. From step 20 on, a document with at least one control whose label
  has a purchase keyword of the classifier and with subscription vocabulary in its markup
  classifies as paywall, whatever the number of price matches. The page with no price
  token, the text "Choose your plan" and a button labelled "Start Plan" classifies as
  paywall at step 22.
\<close>

theorem late_soft_paywall:
  "(20 \<le> step \<and> 1 \<le> paywallCtaCount page
      \<and> testI softPaywallPattern (toLowerCase (content page))
     \<longrightarrow> type (classifyScreen page step) = Paywall)
   \<and> priceMatches docStartPlan = 0
   \<and> type (classifyScreen docStartPlan 22) = Paywall"
proof -
  have a: "20 \<le> step \<and> 1 \<le> paywallCtaCount page
      \<and> testI softPaywallPattern (toLowerCase (content page))
     \<longrightarrow> type (classifyScreen page step) = Paywall"
  proof
    assume h: "20 \<le> step \<and> 1 \<le> paywallCtaCount page
      \<and> testI softPaywallPattern (toLowerCase (content page))"
    then have s: "strongPaywallSignal page step"
      by (simp add: strongPaywallSignal_def lateStageSoftPaywall_def)
    from h have "1 < step" by simp
    with s have p: "(1 < step \<and> strongPaywallSignal page step) = True" by simp
    show "type (classifyScreen page step) = Paywall"
      unfolding classifyScreen_def p by simp
  qed
  have b: "priceMatches docStartPlan = 0" by code_simp
  have c: "type (classifyScreen docStartPlan 22) = Paywall" by code_simp
  from a b c show ?thesis by blast
qed

theorem late_soft_paywall_witness:
  "20 \<le> (22::nat) \<and> 1 \<le> paywallCtaCount docStartPlan
   \<and> testI softPaywallPattern (toLowerCase (content docStartPlan))
   \<and> type (classifyScreen docStartPlan 22) = Paywall"
proof -
  have c: "1 \<le> paywallCtaCount docStartPlan" by code_simp
  have t: "testI softPaywallPattern (toLowerCase (content docStartPlan))" by code_simp
  from late_soft_paywall [of 22 docStartPlan] c t show ?thesis by simp
qed

section \<open>Properties of the driver loop\<close>

subsection \<open>What a step leaves untouched\<close>

lemma onStepError_frame:
  "onStepError msg st = (out, st') \<Longrightarrow> st' = st \<and> (out = Next \<or> (out = Break ClosedDuringStep \<and> isClosedMessage msg))"
  by (auto simp: onStepError_def split: if_splits)

lemma onNoAction_frame:
  "onNoAction st = (out, st') \<Longrightarrow>
     st' = st\<lparr>noActionCount := noActionCount st + 1\<rparr> \<and> (out = Next \<or> out = Break NoActionStop)"
  by (auto simp: onNoAction_def Let_def split: if_splits)

lemma actPhase_frame:
  assumes "actPhase obs ty st = (out, st')"
  shows "iterations st' = iterations st \<and> emailReached st' = emailReached st
         \<and> totalSteps st' = totalSteps st \<and> detectedTypes st' = detectedTypes st
         \<and> sameHashCount st' = sameHashCount st \<and> out \<noteq> Break LoopStop"
  using assms
  by (auto simp: actPhase_def Let_def split: option.splits prod.splits if_splits
           dest!: onStepError_frame onNoAction_frame)

lemma loopPhase_frame:
  assumes "loopPhase obs step ty domHash st = (out, st')"
  shows "iterations st' = iterations st \<and> emailReached st' = emailReached st
         \<and> totalSteps st' = totalSteps st \<and> detectedTypes st' = detectedTypes st"
  using assms
  by (auto simp: loopPhase_def Let_def split: option.splits if_splits
           dest!: onStepError_frame actPhase_frame)

lemma fingerprintPhase_frame:
  assumes "fingerprintPhase obs step ty st = (out, st')"
  shows "iterations st' = iterations st \<and> emailReached st' = emailReached st
         \<and> totalSteps st' = totalSteps st \<and> detectedTypes st' = detectedTypes st"
  using assms
  by (auto simp: fingerprintPhase_def Let_def split: option.splits if_splits
           dest!: onStepError_frame loopPhase_frame)

lemma stepBody_frame:
  assumes "stepBody obs step st = (out, st')"
  shows "iterations st' = iterations st \<and> (emailReached st \<longrightarrow> emailReached st')
         \<and> totalSteps st' \<le> totalSteps st + 1
         \<and> (emailReached st = (Email \<in> set (detectedTypes st))
              \<longrightarrow> emailReached st' = (Email \<in> set (detectedTypes st')))"
  using assms
  by (auto simp: stepBody_def Let_def addType_def split: option.splits if_splits
           dest!: onStepError_frame fingerprintPhase_frame)

subsection \<open>The ways through one pass of the loop\<close>

lemma runLoop_cases:
  obtains (budget) "runLoop env step st = (BudgetExhausted, st)"
  | (closed) "step \<le> maxSteps + 15" "emailReached st \<or> step \<le> maxSteps"
       "pageIsClosed (env step)"
       "runLoop env step st = (PageClosed, st\<lparr>iterations := iterations st + 1\<rparr>)"
  | (continue) st1 where "step \<le> maxSteps + 15" "emailReached st \<or> step \<le> maxSteps"
       "\<not> pageIsClosed (env step)"
       "stepBody (env step) step (st\<lparr>iterations := iterations st + 1\<rparr>) = (Next, st1)"
       "runLoop env step st = runLoop env (step + 1) st1"
  | (stopped) why st1 where "step \<le> maxSteps + 15" "emailReached st \<or> step \<le> maxSteps"
       "\<not> pageIsClosed (env step)"
       "stepBody (env step) step (st\<lparr>iterations := iterations st + 1\<rparr>) = (Break why, st1)"
       "runLoop env step st = (why, st1)"
proof -
  let ?st0 = "st\<lparr>iterations := iterations st + 1\<rparr>"
  obtain out st1 where body: "stepBody (env step) step ?st0 = (out, st1)"
    by (cases "stepBody (env step) step ?st0") auto
  show thesis
  proof (cases "step \<le> maxSteps + 15 \<and> (emailReached st \<or> step \<le> maxSteps)")
    case False
    then have "runLoop env step st = (BudgetExhausted, st)"
      by (subst runLoop.simps) auto
    then show thesis by (rule budget)
  next
    case g: True
    show thesis
    proof (cases "pageIsClosed (env step)")
      case True
      with g have "runLoop env step st = (PageClosed, ?st0)"
        by (subst runLoop.simps) (auto simp: Let_def)
      with g True show thesis using closed by blast
    next
      case False
      show thesis
      proof (cases out)
        case Next
        with g False body have "runLoop env step st = runLoop env (step + 1) st1"
          by (subst runLoop.simps) (auto simp: Let_def)
        with g False body Next show thesis using continue by blast
      next
        case (Break why)
        with g False body have "runLoop env step st = (why, st1)"
          by (subst runLoop.simps) (auto simp: Let_def)
        with g False body Break show thesis using stopped by blast
      qed
    qed
  qed
qed

subsection \<open>The step budget\<close>

lemma runLoop_bound:
  assumes "runLoop env step st = (why, st')"
    and "iterations st + 1 = step"
    and "step \<le> maxSteps + 16"
    and "\<not> emailReached st \<longrightarrow> step \<le> maxSteps + 1"
    and "totalSteps st \<le> iterations st"
    and "emailReached st = (Email \<in> set (detectedTypes st))"
  shows "iterations st' \<le> maxSteps + 15
         \<and> (\<not> emailReached st' \<longrightarrow> iterations st' \<le> maxSteps)
         \<and> totalSteps st' \<le> iterations st'
         \<and> emailReached st' = (Email \<in> set (detectedTypes st'))"
  using assms
proof (induction env step st rule: runLoop.induct)
  case (1 env step st)
  let ?st0 = "st\<lparr>iterations := iterations st + 1\<rparr>"
  show ?case
  proof (cases "step \<le> maxSteps + 15 \<and> \<not> (\<not> emailReached st \<and> maxSteps < step)
                \<and> \<not> (emailReached st \<and> maxSteps + 15 < step)")
    case False
    with "1.prems"(1) have "why = BudgetExhausted \<and> st' = st"
      by (subst (asm) runLoop.simps) (auto split: if_splits)
    with "1.prems" show ?thesis by auto
  next
    case guards: True
    show ?thesis
    proof (cases "pageIsClosed (env step)")
      case True
      with guards "1.prems"(1) have "st' = ?st0"
        by (subst (asm) runLoop.simps) (auto simp: Let_def split: if_splits)
      with guards "1.prems" show ?thesis by auto
    next
      case opened: False
      obtain out st1 where body: "stepBody (env step) step ?st0 = (out, st1)"
        by (cases "stepBody (env step) step ?st0") auto
      note fr = stepBody_frame [OF body]
      show ?thesis
      proof (cases out)
        case Next
        with guards opened body "1.prems"(1) have run: "runLoop env (step + 1) st1 = (why, st')"
          by (subst (asm) runLoop.simps) (auto simp: Let_def split: if_splits)
        have "iterations st1 + 1 = step + 1" using fr "1.prems"(2) by simp
        moreover have "step + 1 \<le> maxSteps + 16" using guards by simp
        moreover have "\<not> emailReached st1 \<longrightarrow> step + 1 \<le> maxSteps + 1"
          using fr guards by auto
        moreover have "totalSteps st1 \<le> iterations st1" using fr "1.prems"(5) by simp
        moreover have "emailReached st1 = (Email \<in> set (detectedTypes st1))"
          using fr "1.prems"(6) by simp
        ultimately show ?thesis
          using "1.IH" [OF _ _ _ _ _ body [symmetric] Next run] guards opened by auto
      next
        case (Break r)
        with guards opened body "1.prems"(1) have "st' = st1"
          by (subst (asm) runLoop.simps) (auto simp: Let_def split: if_splits)
        with fr guards "1.prems" show ?thesis by auto
      qed
    qed
  qed
qed

subsection \<open>The loop stop\<close>

lemma actPhase_not_loop: "actPhase obs ty st \<noteq> (Break LoopStop, st')"
  using actPhase_frame [of obs ty st "Break LoopStop" st'] by auto

lemma loopPhase_stop:
  assumes "loopPhase obs step ty domHash st = (Break LoopStop, st')"
  shows "sameDomHashLimit \<le> sameHashCount st' \<and> 2 \<le> noActionCount st'"
  using assms
  by (auto simp: loopPhase_def Let_def actPhase_not_loop split: option.splits if_splits
           dest!: onStepError_frame)

lemma fingerprintPhase_stop:
  assumes "fingerprintPhase obs step ty st = (Break LoopStop, st')"
  shows "sameDomHashLimit \<le> sameHashCount st' \<and> 2 \<le> noActionCount st'"
  using assms
  by (auto simp: fingerprintPhase_def Let_def split: option.splits if_splits
           dest!: onStepError_frame loopPhase_stop)

lemma stepBody_stop:
  assumes "stepBody obs step st = (Break LoopStop, st')"
  shows "sameDomHashLimit \<le> sameHashCount st' \<and> 2 \<le> noActionCount st'"
  using assms
  by (auto simp: stepBody_def Let_def split: option.splits if_splits
           dest!: onStepError_frame fingerprintPhase_stop)

lemma runLoop_stop:
  assumes "runLoop env step st = (LoopStop, st')"
  shows "sameDomHashLimit \<le> sameHashCount st' \<and> 2 \<le> noActionCount st'"
  using assms
proof (induction env step st rule: runLoop.induct)
  case (1 env step st)
  show ?case
  proof (cases env step st rule: runLoop_cases)
    case budget
    with "1.prems" show ?thesis by simp
  next
    case closed
    with "1.prems" show ?thesis by simp
  next
    case (continue st1)
    from continue(5) "1.prems" have "runLoop env (step + 1) st1 = (LoopStop, st')" by simp
    from "1.IH" [OF _ _ _ _ _ continue(4) [symmetric] _ this] continue(1-3)
    show ?thesis by auto
  next
    case (stopped why st1)
    with "1.prems" have "why = LoopStop" "st1 = st'" by simp_all
    with stopped(4) stepBody_stop show ?thesis by blast
  qed
qed

subsection \<open>Runs in which the dispatcher always reports an action\<close>


lemma onStepError_cases:
  "onStepError msg st = (out, st') \<Longrightarrow>
     st' = st \<and> ((out = Next \<and> \<not> isClosedMessage msg)
                 \<or> (out = Break ClosedDuringStep \<and> isClosedMessage msg))"
  by (auto simp: onStepError_def split: if_splits)



lemma fingerprintPhase_shape:
  "\<exists>st1. noActionCount st1 = noActionCount st
     \<and> (fingerprintPhase obs step ty st
            = loopPhase obs step ty (getStableDomSnapshot (domSnapshot obs)) st1
          \<or> (\<exists>msg. emailRescueError obs = Some msg
                \<and> fingerprintPhase obs step ty st = onStepError msg st1))"
proof -
  let ?domHash = "getStableDomSnapshot (domSnapshot obs)"
  let ?rescue = "getStableDomSnapshot (emailRescueSnapshot obs)"
  define st1 where
    "st1 = st\<lparr>sameHashCount := (if ?domHash = previousHash st then sameHashCount st + 1 else 1),
               previousHash := ?domHash\<rparr>"
  define st2 where
    "st2 = (if ?rescue \<noteq> ?domHash then st1\<lparr>sameHashCount := 1, previousHash := ?rescue\<rparr>
            else st1)"
  define stuck where "stuck = (ty = Email \<and> 3 \<le> sameHashCount st1)"
  have z1: "noActionCount st1 = noActionCount st" by (simp add: st1_def)
  have z2: "noActionCount st2 = noActionCount st" by (simp add: st2_def st1_def)
  have unfold: "fingerprintPhase obs step ty st =
      (if stuck then
         (case emailRescueError obs of
            Some msg \<Rightarrow> onStepError msg st1
          | None \<Rightarrow> loopPhase obs step ty ?domHash st2)
       else loopPhase obs step ty ?domHash st1)"
    unfolding fingerprintPhase_def Let_def st1_def st2_def stuck_def by (rule refl)
  show ?thesis
  proof (cases stuck)
    case False
    then have "fingerprintPhase obs step ty st = loopPhase obs step ty ?domHash st1"
      by (simp add: unfold)
    with z1 show ?thesis by blast
  next
    case True
    show ?thesis
    proof (cases "emailRescueError obs")
      case None
      with True have "fingerprintPhase obs step ty st = loopPhase obs step ty ?domHash st2"
        by (simp add: unfold)
      with z2 show ?thesis by blast
    next
      case (Some msg)
      with True have "fingerprintPhase obs step ty st = onStepError msg st1"
        by (simp add: unfold)
      with z1 Some show ?thesis by blast
    qed
  qed
qed


lemma stepBody_shape:
  "(\<exists>msg. classifyError obs = Some msg \<and> stepBody obs step st = onStepError msg st)
   \<or> (\<exists>msg. evidenceError obs = Some msg \<and> stepBody obs step st = onStepError msg st)
   \<or> (\<exists>st1. noActionCount st1 = noActionCount st
         \<and> ((\<exists>msg. paywallContentError obs = Some msg \<and> stepBody obs step st = onStepError msg st1)
            \<or> stepBody obs step st = (Break PaywallStop, st1)
            \<or> (\<exists>ty. ty \<noteq> Paywall \<and> stepBody obs step st = fingerprintPhase obs step ty st1)))"
proof -
  define ty where "ty = type (classifyStep (snapshot obs) step)"
  define st1 where
    "st1 = st\<lparr>totalSteps := totalSteps st + 1,
               detectedTypes := addType ty (detectedTypes st),
               emailReached := (emailReached st \<or> ty = Email)\<rparr>"
  define st2 where "st2 = st1\<lparr>reachedPaywall := True\<rparr>"
  define paid where "paid = (ty = Paywall)"
  have unfold: "stepBody obs step st =
     (case classifyError obs of
        Some msg \<Rightarrow> onStepError msg st
      | None \<Rightarrow>
          (case evidenceError obs of
                 Some msg \<Rightarrow> onStepError msg st
               | None \<Rightarrow>
                   (if paid then
                         (case paywallContentError obs of
                            Some msg \<Rightarrow> onStepError msg st1
                          | None \<Rightarrow> (Break PaywallStop, st2))
                       else fingerprintPhase obs step ty st1)))"
    unfolding stepBody_def Let_def st1_def st2_def ty_def paid_def by (rule refl)
  have z1: "noActionCount st1 = noActionCount st" by (simp add: st1_def)
  have z2: "noActionCount st2 = noActionCount st" by (simp add: st2_def st1_def)
  show ?thesis
  proof (cases "classifyError obs")
    case (Some msg)
    then have "stepBody obs step st = onStepError msg st" by (simp add: unfold)
    with Some show ?thesis by blast
  next
    case c: None
    show ?thesis
    proof (cases "evidenceError obs")
      case (Some msg)
      with c have "stepBody obs step st = onStepError msg st" by (simp add: unfold)
      with Some show ?thesis by blast
    next
      case e: None
      show ?thesis
      proof (cases paid)
        case False
        with c e have "stepBody obs step st = fingerprintPhase obs step ty st1"
          by (simp add: unfold)
        moreover from False have "ty \<noteq> Paywall" by (simp add: paid_def)
        ultimately show ?thesis using z1 by blast
      next
        case True
        show ?thesis
        proof (cases "paywallContentError obs")
          case None
          with c e True have "stepBody obs step st = (Break PaywallStop, st2)"
            by (simp add: unfold)
          with z2 show ?thesis by blast
        next
          case (Some msg)
          with c e True have "stepBody obs step st = onStepError msg st1"
            by (simp add: unfold)
          with Some z1 show ?thesis by blast
        qed
      qed
    qed
  qed
qed



subsection \<open>The no-action stop comes before the loop stop\<close>

text \<open>When the loop check is made the no-action counter is 0 or 1: a second step
  without action ends the run at once. So no run ends with the loop stop.\<close>

lemma onNoAction_cases:
  "onNoAction st = (out, st') \<Longrightarrow>
     st' = st\<lparr>noActionCount := noActionCount st + 1\<rparr>
     \<and> ((out = Next \<and> noActionCount st = 0)
         \<or> (out = Break NoActionStop \<and> 1 \<le> noActionCount st))"
  by (auto simp: onNoAction_def Let_def split: if_splits)

lemma actPhase_count:
  assumes "actPhase obs ty st = (out, st')" and "noActionCount st \<le> 1"
  shows "out = Next \<longrightarrow> noActionCount st' \<le> 1"
  using assms
  by (auto simp: actPhase_def Let_def split: option.splits prod.splits if_splits
           dest!: onStepError_frame onNoAction_cases)

lemma loopPhase_count:
  assumes "loopPhase obs step ty domHash st = (out, st')" and "noActionCount st \<le> 1"
  shows "out \<noteq> Break LoopStop \<and> (out = Next \<longrightarrow> noActionCount st' \<le> 1)"
proof -
  from assms(2) have c: "(sameDomHashLimit \<le> sameHashCount st \<and> 2 \<le> noActionCount st) = False"
    by simp
  have "loopPhase obs step ty domHash st = actPhase obs ty st"
    unfolding loopPhase_def c by simp
  with assms(1) have a: "actPhase obs ty st = (out, st')" by simp
  from actPhase_count [OF a assms(2)] actPhase_frame [OF a] show ?thesis by simp
qed

lemma stepBody_count:
  assumes run: "stepBody obs step st = (out, st')" and z: "noActionCount st \<le> 1"
  shows "out \<noteq> Break LoopStop \<and> (out = Next \<longrightarrow> noActionCount st' \<le> 1)"
  using stepBody_shape [of obs step st]
proof (elim disjE exE conjE)
  fix msg assume "stepBody obs step st = onStepError msg st"
  with run have "onStepError msg st = (out, st')" by simp
  from onStepError_cases [OF this] z show ?thesis by auto
next
  fix msg assume "stepBody obs step st = onStepError msg st"
    and "evidenceError obs = Some msg"
  with run have "onStepError msg st = (out, st')" by simp
  from onStepError_cases [OF this] z show ?thesis by auto
next
  fix st1 msg assume z1: "noActionCount st1 = noActionCount st"
    and "stepBody obs step st = onStepError msg st1"
  with run have "onStepError msg st1 = (out, st')" by simp
  from onStepError_cases [OF this] z z1 show ?thesis by auto
next
  fix st1 assume "stepBody obs step st = (Break PaywallStop, st1)"
  with run show ?thesis by auto
next
  fix st1 ty assume z1: "noActionCount st1 = noActionCount st"
    and "stepBody obs step st = fingerprintPhase obs step ty st1"
  with run have f: "fingerprintPhase obs step ty st1 = (out, st')" by simp
  from fingerprintPhase_shape [of st1 obs step ty] obtain st2 where
    z2: "noActionCount st2 = noActionCount st1" and
    sh: "fingerprintPhase obs step ty st1
            = loopPhase obs step ty (getStableDomSnapshot (domSnapshot obs)) st2
          \<or> (\<exists>msg. emailRescueError obs = Some msg
                \<and> fingerprintPhase obs step ty st1 = onStepError msg st2)"
    by blast
  from sh show ?thesis
  proof
    assume "fingerprintPhase obs step ty st1
            = loopPhase obs step ty (getStableDomSnapshot (domSnapshot obs)) st2"
    with f have "loopPhase obs step ty (getStableDomSnapshot (domSnapshot obs)) st2 = (out, st')"
      by simp
    from loopPhase_count [OF this] z z1 z2 show ?thesis by simp
  next
    assume "\<exists>msg. emailRescueError obs = Some msg
                \<and> fingerprintPhase obs step ty st1 = onStepError msg st2"
    then obtain msg where "fingerprintPhase obs step ty st1 = onStepError msg st2" by blast
    with f have "onStepError msg st2 = (out, st')" by simp
    from onStepError_cases [OF this] z z1 z2 show ?thesis by auto
  qed
qed

lemma runLoop_never_loop_stop:
  assumes "runLoop env step st = (why, st')" and "noActionCount st \<le> 1"
  shows "why \<noteq> LoopStop"
  using assms
proof (induction env step st rule: runLoop.induct)
  case (1 env step st)
  have z0: "noActionCount (st\<lparr>iterations := iterations st + 1\<rparr>) \<le> 1"
    using "1.prems"(2) by simp
  show ?case
  proof (cases env step st rule: runLoop_cases)
    case budget
    with "1.prems" show ?thesis by simp
  next
    case closed
    with "1.prems" show ?thesis by simp
  next
    case (continue st1)
    from continue(5) "1.prems" have run: "runLoop env (step + 1) st1 = (why, st')" by simp
    from stepBody_count [OF continue(4) z0] have "noActionCount st1 \<le> 1" by simp
    from "1.IH" [OF _ _ _ _ _ continue(4) [symmetric] _ run this] continue(1-3)
    show ?thesis by auto
  next
    case (stopped r st1)
    with "1.prems" have "r = why" by simp
    with stepBody_count [OF stopped(4) z0] show ?thesis by auto
  qed
qed

subsection \<open>The static run\<close>

text \<open>The welcome page answers info at every step, its button is clicked at every step,
  and its fingerprint never changes.\<close>

lemma question_performed: "performed (fst (handleStepAction page Question shift))"
  by (simp add: handleQuestion_def Let_def split: prod.splits)



lemma welcome_info: "handleStepAction welcomePage Info c = (\<lparr>performed = True, messages = [''Clicked continue/next.'']\<rparr>, c)"
  by code_simp




lemma welcome_fields:
  "pageIsClosed welcomeStep = False" "classifyError welcomeStep = None"
  "snapshot welcomeStep = docWelcome" "evidenceError welcomeStep = None"
  "paywallContentError welcomeStep = None" "domSnapshot welcomeStep = welcomeHash"
  "emailRescueError welcomeStep = None" "loopRescueError welcomeStep = None"
  "actionError welcomeStep = None" "actionPage welcomeStep = welcomePage"
  "transitionError welcomeStep = None"
  by (simp_all add: welcomeStep_def)

lemma welcome_no_paywall: "\<not> strongPaywallSignal docWelcome step"
proof -
  have p: "priceMatches docWelcome = 0" by code_simp
  have c: "paywallCtaCount docWelcome = 0" by code_simp
  show ?thesis
    by (simp add: strongPaywallSignal_def aggressivePaywall_def lateStageSoftPaywall_def
                  lateStagePriceOfferPaywall_def p c)
qed

lemma welcome_type: "type (classifyStep docWelcome step) = Info"
proof -
  have one: "type (classifyScreen docWelcome 1) = Info" by code_simp
  have "classifyScreen docWelcome step = classifyScreen docWelcome 1"
    by (rule classifyScreen_step_independent) (simp_all add: welcome_no_paywall)
  with one have "type (classifyScreen docWelcome step) = Info" by simp
  then show ?thesis by (simp add: classifyStep_def Let_def)
qed

lemma welcome_hash_nonempty: "getStableDomSnapshot welcomeHash \<noteq> []"
  by (simp add: getStableDomSnapshot_def welcomeHash_def Let_def)

lemma welcome_step:
  assumes "noActionCount st = 0"
  shows "stepBody welcomeStep step st =
     (Next, st\<lparr>totalSteps := totalSteps st + 1,
               detectedTypes := addType Info (detectedTypes st),
               emailReached := emailReached st,
               sameHashCount := (if getStableDomSnapshot welcomeHash = previousHash st
                                 then sameHashCount st + 1 else 1),
               previousHash := getStableDomSnapshot welcomeHash,
               fallbackOptionShift := fallbackOptionShift st,
               noActionCount := 0\<rparr>)"
  using assms
  by (simp add: stepBody_def fingerprintPhase_def loopPhase_def actPhase_def welcome_fields
                welcome_type welcome_info Let_def del: handleStepAction.simps)

lemma static_run:
  "runFunnel True False staticRun 0 =
     (BudgetExhausted,
      \<lparr>detectedTypes = [Info], reachedPaywall = False, totalSteps = 60,
       previousHash = getStableDomSnapshot welcomeHash, sameHashCount = 60, noActionCount = 0,
       emailReached = False, fallbackOptionShift = 0, iterations = 60\<rparr>)"
  using welcome_hash_nonempty
  by (simp add: runFunnel_def initialState_def runLoop.simps welcome_step staticRun_def
                maxSteps_def addType_def welcome_fields)


subsection \<open>The run on the email screen\<close>

lemma email_fields:
  "pageIsClosed emailOnlyStep = False" "classifyError emailOnlyStep = None"
  "snapshot emailOnlyStep = docEmailOnly" "evidenceError emailOnlyStep = None"
  "paywallContentError emailOnlyStep = None" "domSnapshot emailOnlyStep = emailHash"
  "emailRescueError emailOnlyStep = None" "emailRescueSnapshot emailOnlyStep = emailHash"
  "loopRescueError emailOnlyStep = None"
  "actionError emailOnlyStep = None" "actionPage emailOnlyStep = emailFormPage"
  "transitionError emailOnlyStep = None"
  by (simp_all add: emailOnlyStep_def)

lemma email_no_paywall: "\<not> strongPaywallSignal docEmailOnly step"
proof -
  have p: "priceMatches docEmailOnly = 0" by code_simp
  have c: "paywallCtaCount docEmailOnly = 0" by code_simp
  show ?thesis
    by (simp add: strongPaywallSignal_def aggressivePaywall_def lateStageSoftPaywall_def
                  lateStagePriceOfferPaywall_def p c)
qed

lemma email_type: "type (classifyStep docEmailOnly step) = Email"
proof -
  have one: "type (classifyScreen docEmailOnly 1) = Email" by code_simp
  have "classifyScreen docEmailOnly step = classifyScreen docEmailOnly 1"
    by (rule classifyScreen_step_independent) (simp_all add: email_no_paywall)
  with one have "type (classifyScreen docEmailOnly step) = Email" by simp
  then show ?thesis by (simp add: classifyStep_def Let_def)
qed

lemma email_hash_nonempty: "getStableDomSnapshot emailHash \<noteq> []"
  by (simp add: getStableDomSnapshot_def emailHash_def Let_def)

lemma email_action: "handleStepAction emailFormPage Email c =
  (\<lparr>performed = True,
    messages = [''Filled email=test@example.com'', ''Triggered blur + Enter.'',
                ''Clicked email submit button.'', ''Clicked continue/next.'']\<rparr>, c)"
  by code_simp

lemma email_step:
  assumes "noActionCount st = 0"
  shows "stepBody emailOnlyStep step st =
     (Next, st\<lparr>totalSteps := totalSteps st + 1,
               detectedTypes := addType Email (detectedTypes st),
               emailReached := True,
               sameHashCount := (if getStableDomSnapshot emailHash = previousHash st
                                 then sameHashCount st + 1 else 1),
               previousHash := getStableDomSnapshot emailHash,
               fallbackOptionShift := fallbackOptionShift st,
               noActionCount := 0\<rparr>)"
  using assms
  by (simp add: stepBody_def fingerprintPhase_def loopPhase_def actPhase_def email_fields
                email_type email_action Let_def del: handleStepAction.simps)

lemma email_run:
  "runFunnel True False emailRun 0 =
     (BudgetExhausted,
      \<lparr>detectedTypes = [Email], reachedPaywall = False, totalSteps = 75,
       previousHash = getStableDomSnapshot emailHash, sameHashCount = 75, noActionCount = 0,
       emailReached = True, fallbackOptionShift = 0, iterations = 75\<rparr>)"
  using email_hash_nonempty
  by (simp add: runFunnel_def initialState_def runLoop.simps email_step emailRun_def
                maxSteps_def addType_def email_fields)

subsection \<open>The claims about the driver\<close>

text \<open>
  Claim C1. Every funnel run executes a bounded number of steps. \<open>runLoop\<close> is a total
  function, and for the state \<open>st'\<close> a run ends in: the loop has gone through at most
  \<open>maxSteps + 15\<close> = 75 iterations; when no email screen has been classified during the
  run (the flag \<open>emailReached\<close> is still unset, which is the same as \<open>Email\<close> not being
  among the detected types) it has gone through at most \<open>maxSteps\<close> = 60; the budget
  after an email screen is strictly greater than the budget before. The steps counted in
  the summary are among the iterations.
\<close>

theorem step_budget:
  assumes "runFunnel gotoFirst gotoRetry env shift = (why, st')"
  shows "iterations st' \<le> maxSteps + 15
         \<and> (\<not> emailReached st' \<longrightarrow> iterations st' \<le> maxSteps)
         \<and> (Email \<notin> set (detectedTypes st') \<longrightarrow> iterations st' \<le> maxSteps)
         \<and> totalSteps st' \<le> iterations st'
         \<and> maxSteps = 60 \<and> maxSteps + 15 = 75 \<and> maxSteps < maxSteps + 15"
proof (cases "gotoFirst \<or> gotoRetry")
  case False
  with assms have "st' = initialState shift" by (simp add: runFunnel_def)
  then show ?thesis by (simp add: initialState_def maxSteps_def)
next
  case True
  with assms have run: "runLoop env 1 (initialState shift) = (why, st')"
    by (simp add: runFunnel_def)
  have "iterations st' \<le> maxSteps + 15
         \<and> (\<not> emailReached st' \<longrightarrow> iterations st' \<le> maxSteps)
         \<and> totalSteps st' \<le> iterations st'
         \<and> emailReached st' = (Email \<in> set (detectedTypes st'))"
    by (rule runLoop_bound [OF run]) (simp_all add: initialState_def maxSteps_def)
  then show ?thesis by (auto simp: maxSteps_def)
qed

theorem step_budget_witness:
  "runFunnel True False staticRun 0 =
     (BudgetExhausted,
      \<lparr>detectedTypes = [Info], reachedPaywall = False, totalSteps = 60,
       previousHash = getStableDomSnapshot welcomeHash, sameHashCount = 60, noActionCount = 0,
       emailReached = False, fallbackOptionShift = 0, iterations = 60\<rparr>)
   \<and> iterations (snd (runFunnel True False staticRun 0)) \<le> maxSteps
   \<and> runFunnel True False emailRun 0 =
     (BudgetExhausted,
      \<lparr>detectedTypes = [Email], reachedPaywall = False, totalSteps = 75,
       previousHash = getStableDomSnapshot emailHash, sameHashCount = 75, noActionCount = 0,
       emailReached = True, fallbackOptionShift = 0, iterations = 75\<rparr>)
   \<and> iterations (snd (runFunnel True False emailRun 0)) \<le> maxSteps + 15"
  using step_budget [OF static_run] step_budget [OF email_run] static_run email_run by simp



section \<open>Properties of the option selection\<close>











subsection \<open>The cursor never goes back\<close>













subsection \<open>The claims about the rotation cursor\<close>






section \<open>Properties of the dispatcher\<close>

subsection \<open>The email branch\<close>

lemma hint_messages_plain:
  "list_all (\<lambda>item. \<not> includesStr (''Filled '' @ snd (snd item) @ ''='' @ fst (snd item))
                                   ''Transition detected'') hintMapping"
  by code_simp

lemma guess_messages_plain:
  "list_all (\<lambda>v. \<not> includesStr (''Filled field='' @ v) ''Transition detected'')
            [default_height, default_weight, default_age, default_name, ''1'']"
  by code_simp

lemma guessFromBody_values:
  "guessFromBody b \<in> set [default_height, default_weight, default_age, default_name, ''1'']"
  by (simp add: guessFromBody_def)

lemma fill_messages_plain:
  "m \<in> set (fillInputByHints inputs) \<Longrightarrow> \<not> includesStr m ''Transition detected''"
proof (induction inputs)
  case Nil
  then show ?case by simp
next
  case (Cons inp inputs)
  let ?d = "orEmpty (placeholderAttr inp) @ '' '' @ orEmpty (nameAttr inp) @ '' ''
            @ orEmpty (idAttr inp) @ '' '' @ orEmpty (ariaLabelAttr inp)"
  show ?case
  proof (cases "inputDisabled inp")
    case True
    with Cons show ?thesis by simp
  next
    case False
    show ?thesis
    proof (cases "find (\<lambda>item. testI (fst item) ?d) hintMapping")
      case None
      with False Cons.prems
      have "m = ''Filled field='' @ guessFromBody (toLowerCase (orEmpty (bodyAtFill inp)))
            \<or> m \<in> set (fillInputByHints inputs)"
        by (simp add: Let_def)
      then show ?thesis
      proof
        assume e: "m = ''Filled field='' @ guessFromBody (toLowerCase (orEmpty (bodyAtFill inp)))"
        from guess_messages_plain guessFromBody_values [of "toLowerCase (orEmpty (bodyAtFill inp))"]
        have "\<not> includesStr (''Filled field='' @ guessFromBody (toLowerCase (orEmpty (bodyAtFill inp))))
                 ''Transition detected''"
          unfolding list_all_iff by blast
        with e show ?thesis by simp
      next
        assume "m \<in> set (fillInputByHints inputs)"
        then show ?thesis by (rule Cons.IH)
      qed
    next
      case (Some item)
      then have mem: "item \<in> set hintMapping"
        by (auto simp: find_Some_iff)
      obtain hints v label where item: "item = (hints, v, label)" by (cases item)
      with Some False Cons.prems
      have "m = ''Filled '' @ label @ ''='' @ v \<or> m \<in> set (fillInputByHints inputs)"
        by (simp add: Let_def)
      then show ?thesis
      proof
        assume e: "m = ''Filled '' @ label @ ''='' @ v"
        from hint_messages_plain mem item
        have "\<not> includesStr (''Filled '' @ label @ ''='' @ v) ''Transition detected''"
          unfolding list_all_iff by force
        with e show ?thesis by simp
      next
        assume "m \<in> set (fillInputByHints inputs)"
        then show ?thesis by (rule Cons.IH)
      qed
    qed
  qed
qed

lemma fill_no_transition:
  "\<not> list_ex (\<lambda>m. includesStr m ''Transition detected'') (fillInputByHints inputs)"
  using fill_messages_plain by (auto simp: list_ex_iff)

lemma fixed_messages:
  "includesStr ''Filled email=test@example.com (text input fallback).'' ''Transition detected'' = False"
  "includesStr ''Filled email-like input by descriptor hints.'' ''Transition detected'' = False"
  "includesStr ''Filled email=test@example.com'' ''Transition detected'' = False"
  "includesStr ''Triggered blur + Enter.'' ''Transition detected'' = False"
  "includesStr ''Clicked email submit button.'' ''Transition detected'' = False"
  "includesStr ''Clicked generic submit control.'' ''Transition detected'' = False"
  "includesStr ''Submitted form via JS fallback.'' ''Transition detected'' = False"
  "includesStr ''Transition detected after Enter.'' ''Transition detected'' = True"
  "includesStr ''Transition detected after email CTA click.'' ''Transition detected'' = True"
  "includesStr ''Transition detected after generic submit click.'' ''Transition detected'' = True"
  by code_simp+

lemma submitEmailStep_transition:
  "list_ex (\<lambda>m. includesStr m ''Transition detected'') (submitEmailStep page)
   = list_ex (\<lambda>m. includesStr m ''Transition detected'') (runEmailSubmitChain (chain page))"
  by (simp add: submitEmailStep_def Let_def fixed_messages del: includesStr.simps)

lemma chain_transition:
  "list_ex (\<lambda>m. includesStr m ''Transition detected'') (runEmailSubmitChain page)
   = (getSnapshot (afterEnter page) \<noteq> getSnapshot (beforeSubmit page)
      \<or> (0 < found (submitButton page) \<and> isVisible (submitButton page)
          \<and> clickLocator (target (submitButton page))
          \<and> getSnapshot (afterCta page) \<noteq> getSnapshot (beforeSubmit page))
      \<or> (0 < found (genericSubmit page) \<and> isVisible (genericSubmit page)
          \<and> clickLocator (target (genericSubmit page))
          \<and> getSnapshot (afterGenericSubmit page) \<noteq> getSnapshot (beforeSubmit page)))"
  by (cases "getSnapshot (afterEnter page) = getSnapshot (beforeSubmit page)";
      cases "0 < found (submitButton page) \<and> isVisible (submitButton page)
              \<and> clickLocator (target (submitButton page))";
      cases "getSnapshot (afterCta page) = getSnapshot (beforeSubmit page)";
      cases "0 < found (genericSubmit page) \<and> isVisible (genericSubmit page)
              \<and> clickLocator (target (genericSubmit page))";
      cases "getSnapshot (afterGenericSubmit page) = getSnapshot (beforeSubmit page)")
     (auto simp add: runEmailSubmitChain_def Let_def default_email_def fixed_messages
           simp del: includesStr.simps)

lemma email_performed:
  "performed (handleEmail page msgs)
   = (clickContinue (emailContinue page)
      \<or> (0 < realEmailCount page \<and> realEmailVisible page
          \<and> list_ex (\<lambda>m. includesStr m ''Transition detected'')
                     (runEmailSubmitChain (chain (emailStep page)))))"
  by (cases "0 < realEmailCount page \<and> realEmailVisible page"; cases "0 < emailLikeCount page")
     (auto simp add: handleEmail_def Let_def default_email_def fixed_messages fill_no_transition
                submitEmailStep_transition simp del: includesStr.simps)

subsection \<open>The question branch\<close>

lemma actPhase_question:
  assumes run: "actPhase obs Question st = (out, st')" and e: "actionError obs = None"
  shows "noActionCount st' = 0 \<and> out \<noteq> Break NoActionStop"
proof -
  obtain r c' where h: "handleStepAction (actionPage obs) Question (fallbackOptionShift st) = (r, c')"
    by (cases "handleStepAction (actionPage obs) Question (fallbackOptionShift st)") auto
  with question_performed [of "actionPage obs" "fallbackOptionShift st"] have pr: "performed r"
    by simp
  let ?st2 = "st\<lparr>fallbackOptionShift := c', noActionCount := 0\<rparr>"
  have eq: "actPhase obs Question st =
      (case transitionError obs of Some msg \<Rightarrow> onStepError msg ?st2 | None \<Rightarrow> (Next, ?st2))"
    by (simp add: actPhase_def e h pr Let_def del: handleStepAction.simps)
  show ?thesis
  proof (cases "transitionError obs")
    case None
    with eq run show ?thesis by auto
  next
    case (Some msg)
    with eq run have "onStepError msg ?st2 = (out, st')" by simp
    from onStepError_cases [OF this] show ?thesis by auto
  qed
qed

lemma loopPhase_question:
  assumes run: "loopPhase obs step Question domHash st = (out, st')" and e: "actionError obs = None"
  shows "noActionCount st' \<le> noActionCount st \<and> out \<noteq> Break NoActionStop"
proof (cases "sameDomHashLimit \<le> sameHashCount st \<and> 2 \<le> noActionCount st")
  case False
  then have c: "(sameDomHashLimit \<le> sameHashCount st \<and> 2 \<le> noActionCount st) = False"
    by simp
  have "loopPhase obs step Question domHash st = actPhase obs Question st"
    unfolding loopPhase_def c by simp
  with run actPhase_question [OF _ e, of st out st'] show ?thesis by simp
next
  case True
  with run show ?thesis
    by (auto simp: loopPhase_def Let_def split: if_splits option.splits dest!: onStepError_cases)
qed

lemma question_step:
  assumes run: "stepBody obs step st = (out, st')"
    and c: "classifyError obs = None"
    and q: "type (classifyStep (snapshot obs) step) = Question"
    and e: "actionError obs = None"
  shows "noActionCount st' \<le> noActionCount st \<and> out \<noteq> Break NoActionStop"
proof (cases "evidenceError obs")
  case (Some msg)
  with run c have "onStepError msg st = (out, st')" by (simp add: stepBody_def Let_def)
  from onStepError_cases [OF this] show ?thesis by auto
next
  case None
  define st1 where
    "st1 = st\<lparr>totalSteps := totalSteps st + 1,
               detectedTypes := addType Question (detectedTypes st),
               emailReached := (emailReached st \<or> Question = Email)\<rparr>"
  have z1: "noActionCount st1 = noActionCount st" by (simp add: st1_def)
  from run c q None have f: "fingerprintPhase obs step Question st1 = (out, st')"
    by (simp add: stepBody_def Let_def st1_def)
  from fingerprintPhase_shape [of st1 obs step Question] obtain st2 where
    z2: "noActionCount st2 = noActionCount st1" and
    sh: "fingerprintPhase obs step Question st1
            = loopPhase obs step Question (getStableDomSnapshot (domSnapshot obs)) st2
          \<or> (\<exists>msg. emailRescueError obs = Some msg
                \<and> fingerprintPhase obs step Question st1 = onStepError msg st2)"
    by blast
  from sh show ?thesis
  proof
    assume "fingerprintPhase obs step Question st1
            = loopPhase obs step Question (getStableDomSnapshot (domSnapshot obs)) st2"
    with f have "loopPhase obs step Question (getStableDomSnapshot (domSnapshot obs)) st2 = (out, st')"
      by simp
    from loopPhase_question [OF this e] z1 z2 show ?thesis by simp
  next
    assume "\<exists>msg. emailRescueError obs = Some msg
                \<and> fingerprintPhase obs step Question st1 = onStepError msg st2"
    then obtain msg where "fingerprintPhase obs step Question st1 = onStepError msg st2" by blast
    with f have "onStepError msg st2 = (out, st')" by simp
    from onStepError_cases [OF this] z1 z2 show ?thesis by auto
  qed
qed

lemma runLoop_last:
  assumes "runLoop env step st = (NoActionStop, st')" and "iterations st + 1 = step"
  shows "\<exists>st0. stepBody (env (iterations st')) (iterations st') st0 = (Break NoActionStop, st')"
  using assms
proof (induction env step st rule: runLoop.induct)
  case (1 env step st)
  show ?case
  proof (cases env step st rule: runLoop_cases)
    case budget
    with "1.prems" show ?thesis by simp
  next
    case closed
    with "1.prems" show ?thesis by simp
  next
    case (continue st1)
    from continue(5) "1.prems" have run: "runLoop env (step + 1) st1 = (NoActionStop, st')" by simp
    from stepBody_frame [OF continue(4)] "1.prems"(2) have "iterations st1 + 1 = step + 1" by simp
    from "1.IH" [OF _ _ _ _ _ continue(4) [symmetric] _ run this] continue(1-3)
    show ?thesis by auto
  next
    case (stopped r st1)
    with "1.prems" have r: "r = NoActionStop" "st1 = st'" by simp_all
    from stepBody_frame [OF stopped(4)] "1.prems"(2) r have "iterations st' = step" by simp
    with stopped(4) r show ?thesis by auto
  qed
qed

lemma run_no_action_stop:
  assumes "runFunnel gotoFirst gotoRetry env shift = (NoActionStop, st')"
  shows "\<not> (classifyError (env (iterations st')) = None
            \<and> type (classifyStep (snapshot (env (iterations st'))) (iterations st')) = Question
            \<and> actionError (env (iterations st')) = None)"
proof -
  from assms have "runLoop env 1 (initialState shift) = (NoActionStop, st')"
    by (auto simp: runFunnel_def split: if_splits)
  from runLoop_last [OF this] obtain st0 where
    "stepBody (env (iterations st')) (iterations st') st0 = (Break NoActionStop, st')"
    by (auto simp: initialState_def)
  with question_step [OF this] show ?thesis by blast
qed

subsection \<open>The claims about the dispatcher\<close>

text \<open>
  Claim C9, as the code has it. The claim says that for the email archetype the outcome
  has \<open>performed = true\<close> whenever the dispatcher fills the email field, clicks a submit
  control or submits the form. On the sign-up page the dispatcher does all three, and
  its outcome has \<open>performed = false\<close>: no change of address or markup length was seen
  and the final call-to-action click found nothing.
\<close>

theorem email_outcome_counterexample:
  "handleStepAction signupPage Email 0 =
     (\<lparr>performed = False,
       messages = [''Filled email=test@example.com'', ''Triggered blur + Enter.'',
                   ''Clicked email submit button.'', ''Submitted form via JS fallback.'']\<rparr>,
      0)"
  by code_simp

text \<open>
  Claim C9, amended. For the email archetype the outcome has \<open>performed = true\<close>
  exactly when the final call-to-action click succeeds, or a visible email-typed input
  exists and the submit chain sees the snapshot of address and markup length change
  (after the confirm key, after a successful click on the submit control, or after a
  successful click on a generic submit control). Filling the field, clicking a submit
  control or submitting the form by script does not by itself set \<open>performed\<close>.
\<close>

theorem email_outcome:
  "performed (fst (handleStepAction page Email shift))
   = (clickContinue (emailContinue page)
      \<or> (0 < realEmailCount page \<and> realEmailVisible page
          \<and> (getSnapshot (afterEnter (chain (emailStep page)))
                \<noteq> getSnapshot (beforeSubmit (chain (emailStep page)))
              \<or> (0 < found (submitButton (chain (emailStep page)))
                  \<and> isVisible (submitButton (chain (emailStep page)))
                  \<and> clickLocator (target (submitButton (chain (emailStep page))))
                  \<and> getSnapshot (afterCta (chain (emailStep page)))
                      \<noteq> getSnapshot (beforeSubmit (chain (emailStep page))))
              \<or> (0 < found (genericSubmit (chain (emailStep page)))
                  \<and> isVisible (genericSubmit (chain (emailStep page)))
                  \<and> clickLocator (target (genericSubmit (chain (emailStep page))))
                  \<and> getSnapshot (afterGenericSubmit (chain (emailStep page)))
                      \<noteq> getSnapshot (beforeSubmit (chain (emailStep page)))))))"
  by (simp add: email_performed chain_transition)

theorem email_outcome_witness:
  "0 < realEmailCount movedPage \<and> realEmailVisible movedPage
   \<and> getSnapshot (afterEnter (chain (emailStep movedPage)))
       \<noteq> getSnapshot (beforeSubmit (chain (emailStep movedPage)))
   \<and> \<not> clickContinue (emailContinue movedPage)
   \<and> performed (fst (handleStepAction movedPage Email 0))"
proof -
  have a: "0 < realEmailCount movedPage \<and> realEmailVisible movedPage" by code_simp
  have b: "getSnapshot (afterEnter (chain (emailStep movedPage)))
       \<noteq> getSnapshot (beforeSubmit (chain (emailStep movedPage)))" by code_simp
  have c: "\<not> clickContinue (emailContinue movedPage)" by code_simp
  from email_outcome [of movedPage 0] a b c show ?thesis by blast
qed

text \<open>
  Claim C10, as the code has it. The claim says that the no-action counter can never be
  incremented by a question screen and that the no-action stop cannot be reached from
  question classifications. In the run \<open>failingRun\<close> every step is classified as a
  question and the dispatcher fails each time with an error that does not speak of a
  closed session; the driver counts each failure as no action and stops at step 2 for
  lack of action.
\<close>

theorem question_no_action_counterexample:
  "type (classifyStep (snapshot (failingRun 1)) 1) = Question
   \<and> type (classifyStep (snapshot (failingRun 2)) 2) = Question
   \<and> runFunnel True False failingRun 0 =
       (NoActionStop,
        \<lparr>detectedTypes = [Question], reachedPaywall = False, totalSteps = 2,
         previousHash = getStableDomSnapshot radioHash, sameHashCount = 2, noActionCount = 2,
         emailReached = False, fallbackOptionShift = 0, iterations = 2\<rparr>)"
  by code_simp

text \<open>
  Claim C10, amended. Whenever the dispatcher returns for the question archetype, its
  outcome has \<open>performed = true\<close>: when no option is selected and no call to action is
  found, the confirm key sent as a last resort counts as the action. So a step classified
  as a question whose dispatcher call returns never raises the no-action counter and never
  takes the no-action stop, and a run that ends with the no-action stop does not end on
  such a step. A dispatcher call that fails with an error other than a closed session
  is counted as no action by the driver, on a question screen as on any other.
\<close>

theorem question_outcome:
  "performed (fst (handleStepAction page Question shift))
   \<and> (stepBody obs step st = (out, st') \<and> classifyError obs = None
       \<and> type (classifyStep (snapshot obs) step) = Question \<and> actionError obs = None
      \<longrightarrow> noActionCount st' \<le> noActionCount st \<and> out \<noteq> Break NoActionStop)
   \<and> (runFunnel gotoFirst gotoRetry env shift = (NoActionStop, final)
      \<longrightarrow> \<not> (classifyError (env (iterations final)) = None
               \<and> type (classifyStep (snapshot (env (iterations final))) (iterations final))
                   = Question
               \<and> actionError (env (iterations final)) = None))"
  using question_performed [of page shift] question_step [of obs step st out st']
        run_no_action_stop [of gotoFirst gotoRetry env shift final]
  by blast

theorem question_outcome_witness:
  "classifyError answeredStep = None
   \<and> type (classifyStep (snapshot answeredStep) 1) = Question
   \<and> actionError answeredStep = None
   \<and> noActionCount oneMissState = 1
   \<and> fst (stepBody answeredStep 1 oneMissState) = Next
   \<and> noActionCount (snd (stepBody answeredStep 1 oneMissState)) = 0
   \<and> performed (fst (handleStepAction (actionPage answeredStep) Question 0))"
proof -
  have c: "classifyError answeredStep = None" by code_simp
  have q: "type (classifyStep (snapshot answeredStep) 1) = Question" by code_simp
  have e: "actionError answeredStep = None" by code_simp
  have m: "noActionCount oneMissState = 1" by code_simp
  have n: "fst (stepBody answeredStep 1 oneMissState) = Next" by code_simp
  from question_outcome
         [of "actionPage answeredStep" 0 answeredStep 1 oneMissState
             "fst (stepBody answeredStep 1 oneMissState)"
             "snd (stepBody answeredStep 1 oneMissState)"]
       c q e
  have "performed (fst (handleStepAction (actionPage answeredStep) Question 0))
        \<and> noActionCount (snd (stepBody answeredStep 1 oneMissState)) \<le> noActionCount oneMissState
        \<and> fst (stepBody answeredStep 1 oneMissState) \<noteq> Break NoActionStop"
    by simp
  moreover have "noActionCount (snd (stepBody answeredStep 1 oneMissState)) = 0" by code_simp
  ultimately show ?thesis using c q e m n by blast
qed

end
